theory Spec2Isabelle
  imports Complex_Main "HOL-Library.Word"
begin

unbundle bit_operations_syntax

section \<open>Values of the host platforms\<close>

subsection \<open>Single-precision floats and the 4x4 matrix\<close>

text \<open>
  A C++ \<open>float\<close> (and a Java \<open>float\<close>) is an IEEE 754 binary32 value, kept here as
  its bit pattern: sign bit 31, exponent bits 30..23, fraction bits 22..0. The only float
  operation of \<open>qsurfacetexture.cpp\<close> is the comparison \<open>==\<close> inside
  \<open>QMatrix4x4::operator==\<close>; on bit patterns it is decidable without any arithmetic:
  a NaN (exponent all ones, fraction non-zero) is equal to nothing, the two zeros are
  equal to each other, and any other two values are equal when their bits are.
\<close>

type_synonym cfloat = "32 word"

definition is_nan :: "cfloat \<Rightarrow> bool" where
  "is_nan f \<longleftrightarrow> f AND 0x7F800000 = 0x7F800000 \<and> f AND 0x007FFFFF \<noteq> 0"

definition is_zero :: "cfloat \<Rightarrow> bool" where
  "is_zero f \<longleftrightarrow> f AND 0x7FFFFFFF = 0"

definition float_eq :: "cfloat \<Rightarrow> cfloat \<Rightarrow> bool" where
  "float_eq a b \<longleftrightarrow> \<not> is_nan a \<and> \<not> is_nan b \<and> (a = b \<or> (is_zero a \<and> is_zero b))"

text \<open>
  \<open>QMatrix4x4\<close> holds \<open>float m[4][4]\<close>; \<open>data()\<close> exposes it as 16 consecutive floats.
  The model is the list of these floats. Qt's \<open>QMatrix4x4::operator==\<close> is the
  conjunction of the sixteen entry comparisons \<open>m[i][j] == other.m[i][j]\<close>.
\<close>

type_synonym QMatrix4x4 = "cfloat list"

definition matrix_eq :: "QMatrix4x4 \<Rightarrow> QMatrix4x4 \<Rightarrow> bool" where
  "matrix_eq a b = list_all2 float_eq a b"

text \<open>
  Read as numbers, two floats that are not NaN are the same exactly when their bit
  patterns are, except that the two zeros are one number. \<open>float_value\<close> picks one bit
  pattern for each number. \<open>has_nan\<close> says that a matrix has a NaN entry, and
  \<open>mixed_zeros\<close> that two matrices have, in the same place, zeros of opposite sign.
\<close>

definition float_value :: "cfloat \<Rightarrow> cfloat" where
  "float_value f = (if is_zero f then 0 else f)"

definition has_nan :: "QMatrix4x4 \<Rightarrow> bool" where
  "has_nan m = list_ex is_nan m"

definition mixed_zeros :: "QMatrix4x4 \<Rightarrow> QMatrix4x4 \<Rightarrow> bool" where
  "mixed_zeros a b = list_ex (\<lambda>(x, y). is_zero x \<and> is_zero y \<and> x \<noteq> y) (zip a b)"

definition float_one :: cfloat where
  "float_one = 0x3F800000"

text \<open>The default-constructed \<open>QMatrix4x4\<close> is the identity.\<close>

definition identity_entry :: "nat \<Rightarrow> cfloat" where
  "identity_entry i = (if i mod 5 = 0 then float_one else 0)"

definition identity_matrix :: QMatrix4x4 where
  "identity_matrix = map identity_entry [0..<16]"

section \<open>The host platforms\<close>

text \<open>
  \<open>qsurfacetexture.cpp\<close> is a sequence of calls into OpenGL ES, JNI, the Java class
  \<open>android.graphics.SurfaceTexture\<close> and Qt Quick. The host is modelled as a record that
  is passed through every function of the file: it holds the log of the calls made so
  far, oldest first, and as much of the state behind these interfaces as the program
  can observe or change.
\<close>

subsection \<open>OpenGL ES\<close>

datatype GLenum =
    GL_TEXTURE0
  | GL_TEXTURE_EXTERNAL_OES
  | GL_TEXTURE_MIN_FILTER
  | GL_TEXTURE_MAG_FILTER
  | GL_TEXTURE_WRAP_S
  | GL_TEXTURE_WRAP_T
  | GL_NEAREST
  | GL_LINEAR
  | GL_CLAMP_TO_EDGE

type_synonym GLuint = "32 word"

subsection \<open>JNI references and Java objects\<close>

text \<open>
  A JNI reference is null, a local reference or a global reference; the two kinds live
  in separate tables that map a reference to the Java object it keeps alive.
\<close>

datatype jref = Null | Local nat | Global nat

datatype jvalue = JInt "32 word" | JLong "64 word" | JObject jref

text \<open>
  The Java heap holds float arrays, \<open>SurfaceTexture\<close> objects and instances of other
  classes. A \<open>SurfaceTexture\<close> has the GL texture name it was created for, its
  frame-available listener, the transform matrix of the frame latched last (entry \<open>i\<close>
  of the 16) and the transforms of the frames its producer has queued since.
\<close>

datatype jobj =
    FloatArray "cfloat list"
  | SurfaceTexture "32 word" "nat option" "nat \<Rightarrow> cfloat" "(nat \<Rightarrow> cfloat) list"
  | Instance string "jvalue list"

subsection \<open>Qt\<close>

datatype ConnectionType =
  AutoConnection | DirectConnection | QueuedConnection | BlockingQueuedConnection

datatype DirtyStateBit = DirtyGeometry | DirtyMaterial

datatype Flag = UsePreprocess | OwnsMaterial

text \<open>
  Qt's \<open>qreal\<close> is a C++ \<open>double\<close>: a finite number, one of the two infinities, or NaN
  (not a number). The sum and the difference follow IEEE 754 on the infinities and on
  NaN: NaN is absorbing and the sum of opposite infinities is NaN. On two finite values
  they are taken exactly. The rectangles of this program are \<open>QRectF(0, 0, width, height)\<close>
  and what the flip makes of them, and every sum and difference computed on them has an
  operand 0 or is of a value with itself or with its negation; a \<open>double\<close> computes
  these without rounding or overflow, so the exact result is the program's result.
  The conversion of a \<open>qreal\<close> to a C++ \<open>float\<close> (and back) rounds; it is a parameter
  \<open>narrow\<close> of the one function that converts.
\<close>

datatype qreal = Finite rat | PosInf | NegInf | NaN

fun qadd :: "qreal \<Rightarrow> qreal \<Rightarrow> qreal" where
  "qadd NaN b = NaN"
| "qadd a NaN = NaN"
| "qadd PosInf NegInf = NaN"
| "qadd NegInf PosInf = NaN"
| "qadd PosInf b = PosInf"
| "qadd NegInf b = NegInf"
| "qadd (Finite x) PosInf = PosInf"
| "qadd (Finite x) NegInf = NegInf"
| "qadd (Finite x) (Finite y) = Finite (x + y)"

fun qneg :: "qreal \<Rightarrow> qreal" where
  "qneg (Finite x) = Finite (- x)"
| "qneg PosInf = NegInf"
| "qneg NegInf = PosInf"
| "qneg NaN = NaN"

definition qsub :: "qreal \<Rightarrow> qreal \<Rightarrow> qreal" where
  "qsub a b = qadd a (qneg b)"

fun is_finite :: "qreal \<Rightarrow> bool" where
  "is_finite (Finite x) = True"
| "is_finite _ = False"

text \<open>
  \<open>QRectF\<close> keeps a corner and a size; the accessors and setters are Qt's inline
  definitions (\<open>right() = xp + w\<close>, \<open>bottom() = yp + h\<close>,
  \<open>setTop(pos) { diff = pos - yp; yp += diff; h -= diff; }\<close>,
  \<open>setBottom(pos) { h = pos - yp; }\<close>).
\<close>

record QRectF =
  xp :: qreal
  yp :: qreal
  wd :: qreal
  ht :: qreal

definition rect_left :: "QRectF \<Rightarrow> qreal" where
  "rect_left r = xp r"

definition rect_top :: "QRectF \<Rightarrow> qreal" where
  "rect_top r = yp r"

definition rect_right :: "QRectF \<Rightarrow> qreal" where
  "rect_right r = qadd (xp r) (wd r)"

definition rect_bottom :: "QRectF \<Rightarrow> qreal" where
  "rect_bottom r = qadd (yp r) (ht r)"

definition setTop :: "qreal \<Rightarrow> QRectF \<Rightarrow> QRectF" where
  "setTop pos r = (let diff = qsub pos (yp r) in r\<lparr>yp := qadd (yp r) diff, ht := qsub (ht r) diff\<rparr>)"

definition setBottom :: "qreal \<Rightarrow> QRectF \<Rightarrow> QRectF" where
  "setBottom pos r = r\<lparr>ht := qsub pos (yp r)\<rparr>"

subsection \<open>The log of calls and the host state\<close>

datatype call =
    CallNewObject string string "jvalue list"
  | CallVoidMethod jref string string "jvalue list"
  | CallNewFloatArray nat
  | CallNewGlobalRef jref
  | CallDeleteLocalRef jref
  | CallDeleteGlobalRef jref
  | CallGetFloatArrayRegion jref nat nat
  | GlGenTextures nat
  | GlBindTexture GLenum GLuint
  | GlActiveTexture GLenum
  | GlTexParameterf GLenum GLenum GLenum
  | GlTexParameteri GLenum GLenum GLenum
  | GlDeleteTextures "GLuint list"
  | InvokeMethod "64 word" string ConnectionType
  | UpdateTexturedRectGeometry QRectF QRectF
  | MarkDirty "DirtyStateBit set"

record host =
  calls :: "call list"
  fresh :: nat
  locals :: "nat \<rightharpoonup> nat"
  globals :: "nat \<rightharpoonup> nat"
  jheap :: "nat \<rightharpoonup> jobj"
  exception_pending :: bool
  gl_last :: GLuint
  gl_textures :: "GLuint set"
  gl_params :: "GLuint \<Rightarrow> GLenum \<rightharpoonup> GLenum"
  gl_active :: GLenum
  gl_bound :: "GLenum \<times> GLenum \<Rightarrow> GLuint"

definition record_call :: "call \<Rightarrow> host \<Rightarrow> host" where
  "record_call c hs = hs\<lparr>calls := calls hs @ [c]\<rparr>"

subsection \<open>JNI functions\<close>

definition resolve :: "host \<Rightarrow> jref \<Rightarrow> nat option" where
  "resolve hs r = (case r of Null \<Rightarrow> None | Local k \<Rightarrow> locals hs k | Global k \<Rightarrow> globals hs k)"

text \<open>\<open>NewFloatArray\<close>: a new array of zeros, returned through a new local reference.\<close>

definition NewFloatArray :: "nat \<Rightarrow> host \<Rightarrow> jref \<times> host" where
  "NewFloatArray n hs =
     (let k = Suc (fresh hs) in
      (Local k,
       record_call (CallNewFloatArray n)
         (hs\<lparr>fresh := k,
             jheap := (jheap hs)(k \<mapsto> FloatArray (replicate n 0)),
             locals := (locals hs)(k \<mapsto> k)\<rparr>)))"

definition NewGlobalRef :: "jref \<Rightarrow> host \<Rightarrow> jref \<times> host" where
  "NewGlobalRef r hs =
     (case resolve hs r of
        None \<Rightarrow> (Null, record_call (CallNewGlobalRef r) hs)
      | Some obj \<Rightarrow>
          (let k = Suc (fresh hs) in
           (Global k,
            record_call (CallNewGlobalRef r)
              (hs\<lparr>fresh := k, globals := (globals hs)(k \<mapsto> obj)\<rparr>))))"

definition DeleteLocalRef :: "jref \<Rightarrow> host \<Rightarrow> host" where
  "DeleteLocalRef r hs =
     record_call (CallDeleteLocalRef r)
       (case r of Local k \<Rightarrow> hs\<lparr>locals := (locals hs)(k := None)\<rparr> | _ \<Rightarrow> hs)"

definition DeleteGlobalRef :: "jref \<Rightarrow> host \<Rightarrow> host" where
  "DeleteGlobalRef r hs =
     record_call (CallDeleteGlobalRef r)
       (case r of Global k \<Rightarrow> hs\<lparr>globals := (globals hs)(k := None)\<rparr> | _ \<Rightarrow> hs)"

definition float_array :: "host \<Rightarrow> jref \<Rightarrow> cfloat list option" where
  "float_array hs r =
     (case resolve hs r of
        None \<Rightarrow> None
      | Some k \<Rightarrow> (case jheap hs k of Some (FloatArray xs) \<Rightarrow> Some xs | _ \<Rightarrow> None))"

text \<open>
  \<open>GetFloatArrayRegion(array, start, len, buf)\<close> copies \<open>len\<close> floats into the buffer.
  When the region does not lie inside the array (or the reference is not an array) the
  buffer is left alone and a Java exception is pending.
\<close>

definition GetFloatArrayRegion ::
  "jref \<Rightarrow> nat \<Rightarrow> nat \<Rightarrow> cfloat list \<Rightarrow> host \<Rightarrow> cfloat list \<times> host" where
  "GetFloatArrayRegion array start len buf hs =
     (let hs' = record_call (CallGetFloatArrayRegion array start len) hs in
      case float_array hs array of
        None \<Rightarrow> (buf, hs'\<lparr>exception_pending := True\<rparr>)
      | Some xs \<Rightarrow>
          if start + len \<le> length xs
          then (take len (drop start xs) @ drop len buf, hs')
          else (buf, hs'\<lparr>exception_pending := True\<rparr>))"

subsection \<open>Java objects through QAndroidJniObject\<close>

text \<open>
  \<open>QAndroidJniObject(className, signature, args)\<close> constructs a Java object and holds a
  global reference to it. A new \<open>SurfaceTexture\<close> has the identity transform and no
  queued frame. The wrapper releases its reference when its last copy is destroyed; that
  release is not part of the model, so a wrapper's reference stays live.
\<close>

definition new_jobj :: "string \<Rightarrow> jvalue list \<Rightarrow> jobj" where
  "new_jobj className args =
     (if className = ''android/graphics/SurfaceTexture''
      then (case args of [JInt t] \<Rightarrow> SurfaceTexture t None identity_entry [] | _ \<Rightarrow> Instance className args)
      else Instance className args)"

definition QAndroidJniObject :: "string \<Rightarrow> string \<Rightarrow> jvalue list \<Rightarrow> host \<Rightarrow> jref \<times> host" where
  "QAndroidJniObject className sig args hs =
     (let k = Suc (fresh hs) in
      (Global k,
       record_call (CallNewObject className sig args)
         (hs\<lparr>fresh := k,
             jheap := (jheap hs)(k \<mapsto> new_jobj className args),
             globals := (globals hs)(k \<mapsto> k)\<rparr>)))"

text \<open>
  The three methods of \<open>SurfaceTexture\<close> the program calls. \<open>updateTexImage\<close> latches the
  next queued frame, if there is one. \<open>getTransformMatrix\<close> stores the 16 entries of the
  latched frame's transform into a float array of 16 elements.
\<close>

fun java_updateTexImage :: "jobj \<Rightarrow> jobj" where
  "java_updateTexImage (SurfaceTexture t l cur (f # fs)) = SurfaceTexture t l f fs"
| "java_updateTexImage obj = obj"

definition store_array :: "jref \<Rightarrow> cfloat list \<Rightarrow> host \<Rightarrow> host" where
  "store_array a ys hs =
     (case resolve hs a of
        None \<Rightarrow> hs
      | Some k \<Rightarrow> hs\<lparr>jheap := (jheap hs)(k \<mapsto> FloatArray ys)\<rparr>)"

fun java_getTransformMatrix :: "jobj \<Rightarrow> jvalue list \<Rightarrow> host \<Rightarrow> host" where
  "java_getTransformMatrix (SurfaceTexture t l cur q) [JObject a] hs =
     (case float_array hs a of
        None \<Rightarrow> hs
      | Some xs \<Rightarrow> if length xs = 16 then store_array a (map cur [0..<16]) hs else hs)"
| "java_getTransformMatrix obj args hs = hs"

fun java_setOnFrameAvailableListener :: "nat \<Rightarrow> jobj \<Rightarrow> jvalue list \<Rightarrow> host \<Rightarrow> host" where
  "java_setOnFrameAvailableListener k (SurfaceTexture t l cur q) [JObject a] hs =
     hs\<lparr>jheap := (jheap hs)(k \<mapsto> SurfaceTexture t (resolve hs a) cur q)\<rparr>"
| "java_setOnFrameAvailableListener k obj args hs = hs"

definition callMethod :: "jref \<Rightarrow> string \<Rightarrow> string \<Rightarrow> jvalue list \<Rightarrow> host \<Rightarrow> host" where
  "callMethod obj name sig args hs =
     (let hs' = record_call (CallVoidMethod obj name sig args) hs in
      case resolve hs obj of
        None \<Rightarrow> hs'
      | Some k \<Rightarrow>
          (case jheap hs k of
             None \<Rightarrow> hs'
           | Some ob \<Rightarrow>
               if name = ''updateTexImage'' then hs'\<lparr>jheap := (jheap hs)(k \<mapsto> java_updateTexImage ob)\<rparr>
               else if name = ''getTransformMatrix'' then java_getTransformMatrix ob args hs'
               else if name = ''setOnFrameAvailableListener''
                 then java_setOnFrameAvailableListener k ob args hs'
               else hs'))"

subsection \<open>OpenGL ES functions\<close>

text \<open>
  \<open>glGenTextures(1, &id)\<close>: one unused texture name, never 0; the texture has no
  parameter set yet (all are at their defaults).
\<close>

definition fresh_texture :: "host \<Rightarrow> GLuint" where
  "fresh_texture hs = (if gl_last hs + 1 = 0 then 1 else gl_last hs + 1)"

definition glGenTextures :: "host \<Rightarrow> GLuint \<times> host" where
  "glGenTextures hs =
     (let t = fresh_texture hs in
      (t, record_call (GlGenTextures 1)
            (hs\<lparr>gl_last := t, gl_textures := insert t (gl_textures hs),
                gl_params := (gl_params hs)(t := Map.empty)\<rparr>)))"

definition glActiveTexture :: "GLenum \<Rightarrow> host \<Rightarrow> host" where
  "glActiveTexture unit hs = record_call (GlActiveTexture unit) (hs\<lparr>gl_active := unit\<rparr>)"

definition glBindTexture :: "GLenum \<Rightarrow> GLuint \<Rightarrow> host \<Rightarrow> host" where
  "glBindTexture target t hs =
     record_call (GlBindTexture target t)
       (hs\<lparr>gl_bound := (gl_bound hs)((gl_active hs, target) := t)\<rparr>)"

definition set_param :: "GLenum \<Rightarrow> GLenum \<Rightarrow> GLenum \<Rightarrow> host \<Rightarrow> host" where
  "set_param target pname v hs =
     (let t = gl_bound hs (gl_active hs, target) in
      hs\<lparr>gl_params := (gl_params hs)(t := (gl_params hs t)(pname \<mapsto> v))\<rparr>)"

definition glTexParameterf :: "GLenum \<Rightarrow> GLenum \<Rightarrow> GLenum \<Rightarrow> host \<Rightarrow> host" where
  "glTexParameterf target pname v hs =
     record_call (GlTexParameterf target pname v) (set_param target pname v hs)"

definition glTexParameteri :: "GLenum \<Rightarrow> GLenum \<Rightarrow> GLenum \<Rightarrow> host \<Rightarrow> host" where
  "glTexParameteri target pname v hs =
     record_call (GlTexParameteri target pname v) (set_param target pname v hs)"

text \<open>
  \<open>glDeleteTextures(1, &id)\<close>: the name 0 is ignored; a deleted texture is unbound
  wherever it was bound.
\<close>

definition glDeleteTextures :: "GLuint \<Rightarrow> host \<Rightarrow> host" where
  "glDeleteTextures t hs =
     record_call (GlDeleteTextures [t])
       (if t = 0 then hs
        else hs\<lparr>gl_textures := gl_textures hs - {t},
                gl_params := (gl_params hs)(t := Map.empty),
                gl_bound := (\<lambda>k. if gl_bound hs k = t then 0 else gl_bound hs k)\<rparr>)"

subsection \<open>Qt functions\<close>

definition invokeMethod :: "64 word \<Rightarrow> string \<Rightarrow> ConnectionType \<Rightarrow> host \<Rightarrow> host" where
  "invokeMethod obj member type hs = record_call (InvokeMethod obj member type) hs"

section \<open>The material state\<close>

record State =
  uSTMatrix :: QMatrix4x4

definition compare :: "State \<Rightarrow> State \<Rightarrow> int" where
  "compare s other = (if matrix_eq (uSTMatrix s) (uSTMatrix other) then 0 else - 1)"

section \<open>SurfaceTextureNode\<close>

text \<open>
  \<open>QSGSimpleMaterial<State>\<close>: the state and the \<open>Blending\<close> flag.
  \<open>SurfaceTextureShader::createMaterial()\<close> makes one with a default-constructed state.
\<close>

record QSGSimpleMaterial =
  state :: State
  blending :: bool

definition createMaterial :: QSGSimpleMaterial where
  "createMaterial = \<lparr>state = \<lparr>uSTMatrix = identity_matrix\<rparr>, blending = False\<rparr>"

text \<open>
  The node's members, with the material and the flags of its base class
  \<open>QSGGeometryNode\<close>. \<open>m_geometry\<close> is the pair of rectangles that
  \<open>updateTexturedRectGeometry\<close> wrote its four vertices from, \<open>None\<close> before the first
  write.
\<close>

record SurfaceTextureNode =
  m_surfaceTexture :: jref
  m_geometry :: "(QRectF \<times> QRectF) option"
  m_uSTMatrixArray :: jref
  m_textureId :: GLuint
  material :: "QSGSimpleMaterial option"
  flags :: "Flag set"

text \<open>
  The constructor. \<open>setGeometry(&m_geometry)\<close> only tells the base class where the
  member \<open>m_geometry\<close> is and has no counterpart here. \<open>m_uSTMatrixArray\<close> starts as
  \<open>nullptr\<close>, its default member initialiser.
\<close>

definition setFlag :: "Flag \<Rightarrow> SurfaceTextureNode \<Rightarrow> SurfaceTextureNode" where
  "setFlag f n = n\<lparr>flags := insert f (flags n)\<rparr>"

definition SurfaceTextureNode_ctor :: "jref \<Rightarrow> GLuint \<Rightarrow> host \<Rightarrow> SurfaceTextureNode \<times> host" where
  "SurfaceTextureNode_ctor surfaceTexture textureId hs =
     (let n0 = \<lparr>m_surfaceTexture = surfaceTexture, m_geometry = None, m_uSTMatrixArray = Null,
                m_textureId = textureId, material = None, flags = {}\<rparr>;
          n1 = setFlag UsePreprocess n0;
          mat = createMaterial\<lparr>blending := False\<rparr>;
          n2 = n1\<lparr>material := Some mat\<rparr>;
          n3 = setFlag OwnsMaterial n2;
          (array, hs1) = NewFloatArray 16 hs;
          (g, hs2) = NewGlobalRef array hs1;
          hs3 = DeleteLocalRef array hs2
      in (n3\<lparr>m_uSTMatrixArray := g\<rparr>, hs3))"

definition SurfaceTextureNode_dtor :: "SurfaceTextureNode \<Rightarrow> host \<Rightarrow> host" where
  "SurfaceTextureNode_dtor n hs = DeleteGlobalRef (m_uSTMatrixArray n) hs"

text \<open>
  \<open>preprocess\<close>. The source gives no signature for \<open>updateTexImage\<close>; Qt derives \<open>()V\<close>
  from the template arguments. \<open>GetFloatArrayRegion\<close> writes through
  \<open>mat->state()->uSTMatrix.data()\<close>, that is, into the matrix of the material's state.
\<close>

definition preprocess :: "SurfaceTextureNode \<Rightarrow> host \<Rightarrow> SurfaceTextureNode \<times> host" where
  "preprocess n hs =
     (case material n of
        None \<Rightarrow> (n, hs)
      | Some mat \<Rightarrow>
          (let hs1 = callMethod (m_surfaceTexture n) ''updateTexImage'' ''()V'' [] hs;
               hs2 = callMethod (m_surfaceTexture n) ''getTransformMatrix'' ''([F)V''
                       [JObject (m_uSTMatrixArray n)] hs1;
               (buf, hs3) = GetFloatArrayRegion (m_uSTMatrixArray n) 0 16
                              (uSTMatrix (state mat)) hs2;
               mat' = mat\<lparr>state := (state mat)\<lparr>uSTMatrix := buf\<rparr>\<rparr>;
               hs4 = glActiveTexture GL_TEXTURE0 hs3;
               hs5 = glBindTexture GL_TEXTURE_EXTERNAL_OES (m_textureId n) hs4
           in (n\<lparr>material := Some mat'\<rparr>, hs5)))"

section \<open>The frame-available callback\<close>

definition Java_com_kdab_android_SurfaceTextureListener_frameAvailable ::
  "jref \<Rightarrow> 64 word \<Rightarrow> jref \<Rightarrow> host \<Rightarrow> host" where
  "Java_com_kdab_android_SurfaceTextureListener_frameAvailable thiz ptr surfaceTexture hs =
     invokeMethod ptr ''update'' QueuedConnection hs"

section \<open>QSurfaceTexture\<close>

text \<open>
  The item: its address (\<open>this\<close>, passed to Java as a \<open>jlong\<close>), the size the host gives
  it, and its two members \<open>m_textureId\<close> and \<open>m_surfaceTexture\<close>, which carry the names of
  the node's members in the source and are prefixed with \<open>item\<close> here.
\<close>

record QSurfaceTexture =
  this :: "64 word"
  width :: qreal
  height :: qreal
  ItemHasContents :: bool
  item_textureId :: GLuint
  item_surfaceTexture :: jref

text \<open>
  Modelled from the spec: the header \<open>qsurfacetexture.h\<close>, which declares the members of
  \<open>QSurfaceTexture\<close> and their initial values, is not among the sources. The texture id
  of a new item is 0 and its Java object is invalid.
\<close>

definition QSurfaceTexture_ctor :: "64 word \<Rightarrow> QSurfaceTexture" where
  "QSurfaceTexture_ctor addr =
     \<lparr>this = addr, width = Finite 0, height = Finite 0, ItemHasContents = True,
      item_textureId = 0, item_surfaceTexture = Null\<rparr>"

definition QSurfaceTexture_dtor :: "QSurfaceTexture \<Rightarrow> host \<Rightarrow> host" where
  "QSurfaceTexture_dtor it hs =
     (if item_textureId it \<noteq> 0
      then glDeleteTextures (item_textureId it) (glBindTexture GL_TEXTURE_EXTERNAL_OES 0 hs)
      else hs)"

text \<open>
  \<open>QQuickItem::boundingRect()\<close> is \<open>QRectF(0, 0, width, height)\<close>. The host sets the
  width and the height; \<open>setWidth\<close> and \<open>setHeight\<close> ignore a NaN but take an infinity.
\<close>

definition boundingRect :: "QSurfaceTexture \<Rightarrow> QRectF" where
  "boundingRect it = \<lparr>xp = Finite 0, yp = Finite 0, wd = width it, ht = height it\<rparr>"

definition unit_square :: QRectF where
  "unit_square = \<lparr>xp = Finite 0, yp = Finite 0, wd = Finite 1, ht = Finite 1\<rparr>"

definition updateTexturedRectGeometry ::
  "QRectF \<Rightarrow> QRectF \<Rightarrow> SurfaceTextureNode \<Rightarrow> host \<Rightarrow> SurfaceTextureNode \<times> host" where
  "updateTexturedRectGeometry rect textureRect n hs =
     (n\<lparr>m_geometry := Some (rect, textureRect)\<rparr>,
      record_call (UpdateTexturedRectGeometry rect textureRect) hs)"

definition markDirty :: "DirtyStateBit set \<Rightarrow> host \<Rightarrow> host" where
  "markDirty bits hs = record_call (MarkDirty bits) hs"

text \<open>
  The body of \<open>if (!node) { ... }\<close> in \<open>updatePaintNode\<close>, taken for a null node: the
  first paint. It is a definition of its own so that it can be named.
\<close>

definition first_paint ::
  "QSurfaceTexture \<Rightarrow> host \<Rightarrow> SurfaceTextureNode \<times> QSurfaceTexture \<times> host" where
  "first_paint it hs =
     (let (tex, hs1) = glGenTextures hs;
          it1 = it\<lparr>item_textureId := tex\<rparr>;
          hs2 = glBindTexture GL_TEXTURE_EXTERNAL_OES (item_textureId it1) hs1;
          hs3 = glTexParameterf GL_TEXTURE_EXTERNAL_OES GL_TEXTURE_MIN_FILTER GL_NEAREST hs2;
          hs4 = glTexParameterf GL_TEXTURE_EXTERNAL_OES GL_TEXTURE_MAG_FILTER GL_LINEAR hs3;
          hs5 = glTexParameteri GL_TEXTURE_EXTERNAL_OES GL_TEXTURE_WRAP_S GL_CLAMP_TO_EDGE hs4;
          hs6 = glTexParameteri GL_TEXTURE_EXTERNAL_OES GL_TEXTURE_WRAP_T GL_CLAMP_TO_EDGE hs5;
          (st, hs7) = QAndroidJniObject ''android/graphics/SurfaceTexture'' ''(I)V''
                        [JInt (item_textureId it1)] hs6;
          it2 = it1\<lparr>item_surfaceTexture := st\<rparr>;
          (l, hs8) = QAndroidJniObject ''com/kdab/android/SurfaceTextureListener'' ''(J)V''
                       [JLong (this it2)] hs7;
          hs9 = callMethod (item_surfaceTexture it2) ''setOnFrameAvailableListener''
                  ''(Landroid/graphics/SurfaceTexture$OnFrameAvailableListener;)V''
                  [JObject l] hs8;
          (node, hs10) = SurfaceTextureNode_ctor (item_surfaceTexture it2) (item_textureId it2) hs9
      in (node, it2, hs10))"

definition updatePaintNode ::
  "(qreal \<Rightarrow> qreal) \<Rightarrow> QSurfaceTexture \<Rightarrow> SurfaceTextureNode option \<Rightarrow> host
     \<Rightarrow> SurfaceTextureNode \<times> QSurfaceTexture \<times> host" where
  "updatePaintNode narrow it n hs =
     (let (node, it', hs1) = (case n of None \<Rightarrow> first_paint it hs | Some nd \<Rightarrow> (nd, it, hs));
          rect = boundingRect it';
          tmp = narrow (rect_top rect);
          rect1 = setTop (rect_bottom rect) rect;
          rect2 = setBottom tmp rect1;
          (node', hs2) = updateTexturedRectGeometry rect2 unit_square node hs1;
          hs3 = markDirty {DirtyGeometry, DirtyMaterial} hs2
      in (node', it', hs3))"

section \<open>Reading the log and sample hosts\<close>

fun is_NewFloatArray :: "call \<Rightarrow> bool" where
  "is_NewFloatArray (CallNewFloatArray n) = True"
| "is_NewFloatArray _ = False"

definition allocations :: "call list \<Rightarrow> nat" where
  "allocations cs = length (filter is_NewFloatArray cs)"

fun is_TexParameter :: "call \<Rightarrow> bool" where
  "is_TexParameter (GlTexParameterf target pname v) = True"
| "is_TexParameter (GlTexParameteri target pname v) = True"
| "is_TexParameter _ = False"

definition tex_parameter_calls :: "call list \<Rightarrow> call list" where
  "tex_parameter_calls cs = filter is_TexParameter cs"

fun is_UpdateGeometry :: "call \<Rightarrow> bool" where
  "is_UpdateGeometry (UpdateTexturedRectGeometry rect textureRect) = True"
| "is_UpdateGeometry _ = False"

fun is_gl :: "call \<Rightarrow> bool" where
  "is_gl (GlGenTextures n) = True"
| "is_gl (GlBindTexture target t) = True"
| "is_gl (GlActiveTexture unit) = True"
| "is_gl (GlTexParameterf target pname v) = True"
| "is_gl (GlTexParameteri target pname v) = True"
| "is_gl (GlDeleteTextures ts) = True"
| "is_gl _ = False"

text \<open>A host in which nothing has happened yet.\<close>

definition host0 :: host where
  "host0 = \<lparr>calls = [], fresh = 0, locals = Map.empty, globals = Map.empty, jheap = Map.empty,
            exception_pending = False, gl_last = 0, gl_textures = {}, gl_params = (\<lambda>t. Map.empty),
            gl_active = GL_TEXTURE0, gl_bound = (\<lambda>k. 0)\<rparr>"

text \<open>
  A frame transform that flips vertically (entry 5 is -1.0, entry 13 is 1.0), as the
  camera delivers it, and the platform's producer queueing a frame with it.
\<close>

definition flip_entry :: "nat \<Rightarrow> cfloat" where
  "flip_entry i = (if i = 5 then 0xBF800000 else if i = 0 \<or> i = 10 \<or> i = 13 \<or> i = 15 then float_one else 0)"

definition flip_matrix :: QMatrix4x4 where
  "flip_matrix = map flip_entry [0..<16]"

definition queue_frame :: "jref \<Rightarrow> (nat \<Rightarrow> cfloat) \<Rightarrow> host \<Rightarrow> host" where
  "queue_frame st f hs =
     (case resolve hs st of
        None \<Rightarrow> hs
      | Some k \<Rightarrow>
          (case jheap hs k of
             Some (SurfaceTexture t l cur q) \<Rightarrow> hs\<lparr>jheap := (jheap hs)(k \<mapsto> SurfaceTexture t l cur (q @ [f]))\<rparr>
           | _ \<Rightarrow> hs))"

text \<open>
  A sample run: an item of 640 by 480 at address 4096 is painted for the first time in
  the empty host, and the producer then queues a frame with the flipping transform.
  \<open>sample_narrow\<close> is a coarse narrowing conversion, which keeps three binary places.
\<close>

fun sample_narrow :: "qreal \<Rightarrow> qreal" where
  "sample_narrow (Finite x) = Finite (of_int \<lfloor>x * 8\<rfloor> / 8)"
| "sample_narrow a = a"

definition sample_item :: QSurfaceTexture where
  "sample_item = (QSurfaceTexture_ctor 4096)\<lparr>width := Finite 640, height := Finite 480\<rparr>"

definition painted :: "SurfaceTextureNode \<times> QSurfaceTexture \<times> host" where
  "painted = updatePaintNode sample_narrow sample_item None host0"

definition painted_node :: SurfaceTextureNode where
  "painted_node = fst painted"

definition painted_item :: QSurfaceTexture where
  "painted_item = fst (snd painted)"

definition painted_host :: host where
  "painted_host = queue_frame (item_surfaceTexture painted_item) flip_entry (snd (snd painted))"

text \<open>
  The sample run goes on as Qt does when the scene graph lets go of a node while the item
  lives on: the first node is destroyed, the item is painted again with a null node, and
  at the end the second node and then the item are destroyed.
\<close>

definition repainted :: "SurfaceTextureNode \<times> QSurfaceTexture \<times> host" where
  "repainted =
     updatePaintNode sample_narrow painted_item None (SurfaceTextureNode_dtor painted_node painted_host)"

definition destroyed_host :: host where
  "destroyed_host =
     QSurfaceTexture_dtor (fst (snd repainted))
       (SurfaceTextureNode_dtor (fst repainted) (snd (snd repainted)))"

fun is_DeleteTextures :: "call \<Rightarrow> bool" where
  "is_DeleteTextures (GlDeleteTextures ts) = True"
| "is_DeleteTextures _ = False"

section \<open>What the host functions leave alone\<close>

lemma calls_record_call: "calls (record_call c hs) = calls hs @ [c]"
  by (simp add: record_call_def)

lemma store_array_frame:
  "calls (store_array a ys hs) = calls hs"
  "fresh (store_array a ys hs) = fresh hs"
  "locals (store_array a ys hs) = locals hs"
  "globals (store_array a ys hs) = globals hs"
  "exception_pending (store_array a ys hs) = exception_pending hs"
  "gl_last (store_array a ys hs) = gl_last hs"
  "gl_textures (store_array a ys hs) = gl_textures hs"
  "gl_params (store_array a ys hs) = gl_params hs"
  "gl_active (store_array a ys hs) = gl_active hs"
  "gl_bound (store_array a ys hs) = gl_bound hs"
  by (simp_all add: store_array_def split: option.splits)

lemma getTransformMatrix_frame:
  "calls (java_getTransformMatrix ob args hs) = calls hs"
  "fresh (java_getTransformMatrix ob args hs) = fresh hs"
  "locals (java_getTransformMatrix ob args hs) = locals hs"
  "globals (java_getTransformMatrix ob args hs) = globals hs"
  "exception_pending (java_getTransformMatrix ob args hs) = exception_pending hs"
  "gl_last (java_getTransformMatrix ob args hs) = gl_last hs"
  "gl_textures (java_getTransformMatrix ob args hs) = gl_textures hs"
  "gl_params (java_getTransformMatrix ob args hs) = gl_params hs"
  "gl_active (java_getTransformMatrix ob args hs) = gl_active hs"
  "gl_bound (java_getTransformMatrix ob args hs) = gl_bound hs"
  by (induction ob args hs rule: java_getTransformMatrix.induct;
      simp add: store_array_frame split: option.splits)+

lemma setListener_frame:
  "calls (java_setOnFrameAvailableListener k ob args hs) = calls hs"
  "fresh (java_setOnFrameAvailableListener k ob args hs) = fresh hs"
  "locals (java_setOnFrameAvailableListener k ob args hs) = locals hs"
  "globals (java_setOnFrameAvailableListener k ob args hs) = globals hs"
  "exception_pending (java_setOnFrameAvailableListener k ob args hs) = exception_pending hs"
  "gl_last (java_setOnFrameAvailableListener k ob args hs) = gl_last hs"
  "gl_textures (java_setOnFrameAvailableListener k ob args hs) = gl_textures hs"
  "gl_params (java_setOnFrameAvailableListener k ob args hs) = gl_params hs"
  "gl_active (java_setOnFrameAvailableListener k ob args hs) = gl_active hs"
  "gl_bound (java_setOnFrameAvailableListener k ob args hs) = gl_bound hs"
  by (induction k ob args hs rule: java_setOnFrameAvailableListener.induct; simp)+

lemma callMethod_calls:
  "calls (callMethod obj name sig args hs) = calls hs @ [CallVoidMethod obj name sig args]"
  by (simp add: callMethod_def Let_def getTransformMatrix_frame setListener_frame calls_record_call
      split: option.splits)

lemma callMethod_frame:
  "fresh (callMethod obj name sig args hs) = fresh hs"
  "locals (callMethod obj name sig args hs) = locals hs"
  "globals (callMethod obj name sig args hs) = globals hs"
  "exception_pending (callMethod obj name sig args hs) = exception_pending hs"
  "gl_last (callMethod obj name sig args hs) = gl_last hs"
  "gl_textures (callMethod obj name sig args hs) = gl_textures hs"
  "gl_params (callMethod obj name sig args hs) = gl_params hs"
  "gl_active (callMethod obj name sig args hs) = gl_active hs"
  "gl_bound (callMethod obj name sig args hs) = gl_bound hs"
  by (simp_all add: callMethod_def Let_def getTransformMatrix_frame setListener_frame record_call_def
      split: option.splits)

lemma callMethod_resolve: "resolve (callMethod obj name sig args hs) r = resolve hs r"
  by (simp add: resolve_def callMethod_frame split: jref.splits)


lemma jheap_record_call: "jheap (record_call c hs) = jheap hs"
  by (simp add: record_call_def)

lemma resolve_record_call: "resolve (record_call c hs) r = resolve hs r"
  by (simp add: resolve_def record_call_def split: jref.splits)

lemma float_array_record_call: "float_array (record_call c hs) r = float_array hs r"
  by (simp add: float_array_def resolve_record_call jheap_record_call cong: option.case_cong)

lemma getTransformMatrix_array:
  "jheap hs k = Some (FloatArray xs) \<Longrightarrow>
   \<exists>ys. jheap (java_getTransformMatrix ob args hs) k = Some (FloatArray ys) \<and> length ys = length xs"
proof (induction ob args hs rule: java_getTransformMatrix.induct)
  case (1 t l cur q a hs)
  then show ?case
    by (auto simp: store_array_def float_array_def split: option.splits jobj.splits)
qed simp_all

lemma getTransformMatrix_dom:
  "dom (jheap (java_getTransformMatrix ob args hs)) = dom (jheap hs)"
proof (induction ob args hs rule: java_getTransformMatrix.induct)
  case (1 t l cur q a hs)
  then show ?case
    by (auto simp: store_array_def float_array_def split: option.splits jobj.splits)
qed simp_all

lemma setListener_array:
  "jheap hs k = Some (FloatArray xs) \<Longrightarrow> jheap hs k0 = Some ob \<Longrightarrow>
   jheap (java_setOnFrameAvailableListener k0 ob args hs) k = Some (FloatArray xs)"
  by (induction k0 ob args hs rule: java_setOnFrameAvailableListener.induct) auto

lemma setListener_dom:
  "jheap hs k0 = Some ob \<Longrightarrow>
   dom (jheap (java_setOnFrameAvailableListener k0 ob args hs)) = dom (jheap hs)"
  by (induction k0 ob args hs rule: java_setOnFrameAvailableListener.induct) auto

lemma callMethod_array:
  assumes "jheap hs k = Some (FloatArray xs)"
  shows "\<exists>ys. jheap (callMethod obj name sig args hs) k = Some (FloatArray ys) \<and> length ys = length xs"
proof (cases "resolve hs obj")
  case None
  with assms show ?thesis by (simp add: callMethod_def Let_def jheap_record_call)
next
  case (Some k0)
  show ?thesis
  proof (cases "jheap hs k0")
    case None
    with Some assms show ?thesis by (simp add: callMethod_def Let_def jheap_record_call)
  next
    case (Some ob)
    have a: "jheap (record_call c hs) k = Some (FloatArray xs)" "jheap (record_call c hs) k0 = Some ob" for c
      using assms Some by (simp_all add: jheap_record_call)
    have u: "((jheap hs)(k0 \<mapsto> java_updateTexImage ob)) k = Some (FloatArray xs)"
      using assms Some by (cases "k = k0") auto
    have g: "\<exists>ys. jheap (java_getTransformMatrix ob args (record_call c hs)) k = Some (FloatArray ys)
               \<and> length ys = length xs" for c
      by (rule getTransformMatrix_array [OF a(1)])
    have l: "jheap (java_setOnFrameAvailableListener k0 ob args (record_call c hs)) k = Some (FloatArray xs)" for c
      by (rule setListener_array [OF a])
    from g l u \<open>resolve hs obj = Some k0\<close> Some assms
    show ?thesis
      by (simp add: callMethod_def Let_def jheap_record_call)
  qed
qed

lemma callMethod_dom: "dom (jheap (callMethod obj name sig args hs)) = dom (jheap hs)"
proof (cases "resolve hs obj")
  case None
  then show ?thesis by (simp add: callMethod_def Let_def jheap_record_call)
next
  case (Some k0)
  show ?thesis
  proof (cases "jheap hs k0")
    case None
    with Some show ?thesis by (simp add: callMethod_def Let_def jheap_record_call)
  next
    case (Some ob)
    have a: "jheap (record_call c hs) k0 = Some ob" for c
      using Some by (simp add: jheap_record_call)
    have u: "dom ((jheap hs)(k0 \<mapsto> java_updateTexImage ob)) = dom (jheap hs)"
      using Some by auto
    have l: "dom (jheap (java_setOnFrameAvailableListener k0 ob args (record_call c hs))) = dom (jheap hs)" for c
      using setListener_dom [OF a] by (simp add: jheap_record_call)
    from l u \<open>resolve hs obj = Some k0\<close> Some
    show ?thesis
      by (simp add: callMethod_def Let_def getTransformMatrix_dom jheap_record_call)
  qed
qed

lemma callMethod_float_array:
  assumes "float_array hs r = Some xs"
  shows "\<exists>ys. float_array (callMethod obj name sig args hs) r = Some ys \<and> length ys = length xs"
proof -
  from assms obtain k where k: "resolve hs r = Some k" "jheap hs k = Some (FloatArray xs)"
    by (auto simp: float_array_def split: option.splits jobj.splits)
  from callMethod_array [OF k(2)] obtain ys
    where "jheap (callMethod obj name sig args hs) k = Some (FloatArray ys)" "length ys = length xs"
    by blast
  with k(1) show ?thesis
    by (simp add: float_array_def callMethod_resolve)
qed

lemma GetFloatArrayRegion_ok:
  assumes "float_array hs a = Some xs" "start + len \<le> length xs"
  shows "GetFloatArrayRegion a start len buf hs =
           (take len (drop start xs) @ drop len buf, record_call (CallGetFloatArrayRegion a start len) hs)"
  using assms by (simp add: GetFloatArrayRegion_def Let_def)

lemma GetFloatArrayRegion_frame:
  "calls (snd (GetFloatArrayRegion a start len buf hs)) = calls hs @ [CallGetFloatArrayRegion a start len]"
  "jheap (snd (GetFloatArrayRegion a start len buf hs)) = jheap hs"
  "locals (snd (GetFloatArrayRegion a start len buf hs)) = locals hs"
  "globals (snd (GetFloatArrayRegion a start len buf hs)) = globals hs"
  by (simp_all add: GetFloatArrayRegion_def Let_def record_call_def split: option.splits)

lemma gl_bind_frame:
  "calls (glBindTexture target t hs) = calls hs @ [GlBindTexture target t]"
  "jheap (glBindTexture target t hs) = jheap hs"
  "locals (glBindTexture target t hs) = locals hs"
  "globals (glBindTexture target t hs) = globals hs"
  by (simp_all add: glBindTexture_def record_call_def)

lemma gl_active_frame:
  "calls (glActiveTexture unit hs) = calls hs @ [GlActiveTexture unit]"
  "jheap (glActiveTexture unit hs) = jheap hs"
  "locals (glActiveTexture unit hs) = locals hs"
  "globals (glActiveTexture unit hs) = globals hs"
  by (simp_all add: glActiveTexture_def record_call_def)

lemma preprocess_calls:
  "calls (snd (preprocess n hs)) = calls hs @
     (case material n of
        None \<Rightarrow> []
      | Some mat \<Rightarrow>
          [CallVoidMethod (m_surfaceTexture n) ''updateTexImage'' ''()V'' [],
           CallVoidMethod (m_surfaceTexture n) ''getTransformMatrix'' ''([F)V'' [JObject (m_uSTMatrixArray n)],
           CallGetFloatArrayRegion (m_uSTMatrixArray n) 0 16,
           GlActiveTexture GL_TEXTURE0,
           GlBindTexture GL_TEXTURE_EXTERNAL_OES (m_textureId n)])"
  by (simp add: preprocess_def Let_def split_beta gl_bind_frame gl_active_frame
      GetFloatArrayRegion_frame callMethod_calls split: option.splits)

lemma preprocess_refs:
  "m_uSTMatrixArray (fst (preprocess n hs)) = m_uSTMatrixArray n"
  "locals (snd (preprocess n hs)) = locals hs"
  "globals (snd (preprocess n hs)) = globals hs"
  "dom (jheap (snd (preprocess n hs))) = dom (jheap hs)"
  by (simp_all add: preprocess_def Let_def split_beta gl_bind_frame gl_active_frame
      GetFloatArrayRegion_frame callMethod_frame callMethod_dom split: option.splits)

lemma ctor_eq:
  "SurfaceTextureNode_ctor st tex hs =
     (\<lparr>m_surfaceTexture = st, m_geometry = None, m_uSTMatrixArray = Global (Suc (Suc (fresh hs))),
       m_textureId = tex, material = Some createMaterial, flags = {OwnsMaterial, UsePreprocess}\<rparr>,
      hs\<lparr>calls := calls hs @ [CallNewFloatArray 16, CallNewGlobalRef (Local (Suc (fresh hs))),
                                CallDeleteLocalRef (Local (Suc (fresh hs)))],
         fresh := Suc (Suc (fresh hs)),
         locals := (locals hs)(Suc (fresh hs) := None),
         globals := (globals hs)(Suc (Suc (fresh hs)) \<mapsto> Suc (fresh hs)),
         jheap := (jheap hs)(Suc (fresh hs) \<mapsto> FloatArray (replicate 16 0))\<rparr>)"
  by (simp add: SurfaceTextureNode_ctor_def NewFloatArray_def NewGlobalRef_def DeleteLocalRef_def
      resolve_def record_call_def setFlag_def createMaterial_def Let_def)

lemma fresh_texture_nonzero: "fresh_texture hs \<noteq> 0"
  by (simp add: fresh_texture_def)

lemmas gl_defs = glGenTextures_def glBindTexture_def glTexParameterf_def glTexParameteri_def
  set_param_def record_call_def

lemmas jni_defs = QAndroidJniObject_def new_jobj_def callMethod_def resolve_def

lemma first_paint_item:
  "fst (snd (first_paint it hs)) =
     it\<lparr>item_textureId := fresh_texture hs, item_surfaceTexture := Global (Suc (fresh hs))\<rparr>"
  by (simp add: first_paint_def Let_def split_beta gl_defs jni_defs)

lemma first_paint_node:
  "fst (first_paint it hs) =
     \<lparr>m_surfaceTexture = Global (Suc (fresh hs)), m_geometry = None,
      m_uSTMatrixArray = Global (Suc (Suc (Suc (Suc (fresh hs))))),
      m_textureId = fresh_texture hs, material = Some createMaterial,
      flags = {OwnsMaterial, UsePreprocess}\<rparr>"
  by (simp add: first_paint_def Let_def split_beta gl_defs jni_defs ctor_eq callMethod_frame)

lemma first_paint_calls:
  "calls (snd (snd (first_paint it hs))) = calls hs @
     [GlGenTextures 1,
      GlBindTexture GL_TEXTURE_EXTERNAL_OES (fresh_texture hs),
      GlTexParameterf GL_TEXTURE_EXTERNAL_OES GL_TEXTURE_MIN_FILTER GL_NEAREST,
      GlTexParameterf GL_TEXTURE_EXTERNAL_OES GL_TEXTURE_MAG_FILTER GL_LINEAR,
      GlTexParameteri GL_TEXTURE_EXTERNAL_OES GL_TEXTURE_WRAP_S GL_CLAMP_TO_EDGE,
      GlTexParameteri GL_TEXTURE_EXTERNAL_OES GL_TEXTURE_WRAP_T GL_CLAMP_TO_EDGE,
      CallNewObject ''android/graphics/SurfaceTexture'' ''(I)V'' [JInt (fresh_texture hs)],
      CallNewObject ''com/kdab/android/SurfaceTextureListener'' ''(J)V'' [JLong (this it)],
      CallVoidMethod (Global (Suc (fresh hs))) ''setOnFrameAvailableListener''
        ''(Landroid/graphics/SurfaceTexture$OnFrameAvailableListener;)V''
        [JObject (Global (Suc (Suc (fresh hs))))],
      CallNewFloatArray 16,
      CallNewGlobalRef (Local (Suc (Suc (Suc (fresh hs))))),
      CallDeleteLocalRef (Local (Suc (Suc (Suc (fresh hs)))))]"
  by (simp add: first_paint_def Let_def split_beta ctor_eq callMethod_calls callMethod_frame
      QAndroidJniObject_def gl_defs)

lemma first_paint_gl:
  "gl_textures (snd (snd (first_paint it hs))) = insert (fresh_texture hs) (gl_textures hs)"
  "gl_params (snd (snd (first_paint it hs))) (fresh_texture hs) =
     [GL_TEXTURE_MIN_FILTER \<mapsto> GL_NEAREST, GL_TEXTURE_MAG_FILTER \<mapsto> GL_LINEAR,
      GL_TEXTURE_WRAP_S \<mapsto> GL_CLAMP_TO_EDGE, GL_TEXTURE_WRAP_T \<mapsto> GL_CLAMP_TO_EDGE]"
  "gl_bound (snd (snd (first_paint it hs))) (gl_active hs, GL_TEXTURE_EXTERNAL_OES) = fresh_texture hs"
  by (simp_all add: first_paint_def Let_def split_beta ctor_eq callMethod_frame
      QAndroidJniObject_def gl_defs)

lemma first_paint_java:
  "jheap (snd (snd (first_paint it hs))) (Suc (fresh hs)) =
     Some (SurfaceTexture (fresh_texture hs) (Some (Suc (Suc (fresh hs)))) identity_entry [])"
  "jheap (snd (snd (first_paint it hs))) (Suc (Suc (fresh hs))) =
     Some (Instance ''com/kdab/android/SurfaceTextureListener'' [JLong (this it)])"
  "globals (snd (snd (first_paint it hs))) (Suc (fresh hs)) = Some (Suc (fresh hs))"
  by (simp_all add: first_paint_def Let_def split_beta ctor_eq gl_defs jni_defs)


lemma updatePaintNode_unfold:
  "updatePaintNode narrow it n hs =
     (let p = (case n of None \<Rightarrow> first_paint it hs | Some nd \<Rightarrow> (nd, it, hs));
          r = setBottom (narrow (rect_top (boundingRect (fst (snd p)))))
                (setTop (rect_bottom (boundingRect (fst (snd p)))) (boundingRect (fst (snd p))))
      in ((fst p)\<lparr>m_geometry := Some (r, unit_square)\<rparr>, fst (snd p),
          (snd (snd p))\<lparr>calls := calls (snd (snd p)) @
             [UpdateTexturedRectGeometry r unit_square, MarkDirty {DirtyGeometry, DirtyMaterial}]\<rparr>))"
  by (simp add: updatePaintNode_def Let_def split_beta updateTexturedRectGeometry_def markDirty_def
      record_call_def)

lemma boundingRect_first_paint:
  "boundingRect (fst (snd (first_paint it hs))) = boundingRect it"
  by (simp add: first_paint_item boundingRect_def)

section \<open>The sample run\<close>

lemma first_paint_array:
  "jheap (snd (snd (first_paint it hs))) (Suc (Suc (Suc (fresh hs)))) = Some (FloatArray (replicate 16 0))"
  "globals (snd (snd (first_paint it hs))) (Suc (Suc (Suc (Suc (fresh hs))))) = Some (Suc (Suc (Suc (fresh hs))))"
  by (simp_all add: first_paint_def Let_def split_beta ctor_eq gl_defs jni_defs)

lemma queue_frame_frame:
  "calls (queue_frame st f hs) = calls hs"
  "globals (queue_frame st f hs) = globals hs"
  "gl_textures (queue_frame st f hs) = gl_textures hs"
  "gl_bound (queue_frame st f hs) = gl_bound hs"
  "gl_last (queue_frame st f hs) = gl_last hs"
  by (simp_all add: queue_frame_def split: option.splits jobj.splits)

lemma first_paint_gl_last:
  "gl_last (snd (snd (first_paint it hs))) = fresh_texture hs"
  by (simp add: first_paint_def Let_def split_beta ctor_eq callMethod_frame
      QAndroidJniObject_def gl_defs)

lemma node_dtor_gl:
  "gl_last (SurfaceTextureNode_dtor n hs) = gl_last hs"
  "gl_textures (SurfaceTextureNode_dtor n hs) = gl_textures hs"
  "calls (SurfaceTextureNode_dtor n hs) = calls hs @ [CallDeleteGlobalRef (m_uSTMatrixArray n)]"
  by (simp_all add: SurfaceTextureNode_dtor_def DeleteGlobalRef_def record_call_def split: jref.splits)

lemma paint_gl:
  "gl_last (snd (snd (updatePaintNode narrow it None hs))) = fresh_texture hs"
  "gl_textures (snd (snd (updatePaintNode narrow it None hs))) = insert (fresh_texture hs) (gl_textures hs)"
  "item_textureId (fst (snd (updatePaintNode narrow it None hs))) = fresh_texture hs"
  "filter is_DeleteTextures (calls (snd (snd (updatePaintNode narrow it None hs)))) =
     filter is_DeleteTextures (calls hs)"
  by (simp_all add: updatePaintNode_unfold Let_def first_paint_gl first_paint_gl_last first_paint_item
      first_paint_calls)

lemma painted_host_gl:
  "gl_last painted_host = 1"
  "gl_textures painted_host = {1}"
  "filter is_DeleteTextures (calls painted_host) = []"
  by (simp_all add: painted_host_def painted_def queue_frame_frame paint_gl fresh_texture_def host0_def)

lemma painted_node_eq:
  "painted_node = \<lparr>m_surfaceTexture = Global (Suc 0),
      m_geometry = Some (\<lparr>xp = Finite 0, yp = Finite 480, wd = Finite 640, ht = Finite (- 480)\<rparr>,
                         unit_square),
      m_uSTMatrixArray = Global (Suc (Suc (Suc (Suc 0)))), m_textureId = 1,
      material = Some createMaterial, flags = {OwnsMaterial, UsePreprocess}\<rparr>"
  by (simp add: painted_node_def painted_def updatePaintNode_unfold Let_def first_paint_node
      first_paint_item sample_item_def QSurfaceTexture_ctor_def host0_def fresh_texture_def
      boundingRect_def setTop_def setBottom_def rect_top_def rect_bottom_def qsub_def)

lemma painted_item_eq:
  "painted_item = sample_item\<lparr>item_textureId := 1, item_surfaceTexture := Global (Suc 0)\<rparr>"
  by (simp add: painted_item_def painted_def updatePaintNode_unfold Let_def first_paint_item
      host0_def fresh_texture_def)

lemma painted_host_globals:
  "globals painted_host (Suc 0) = Some (Suc 0)"
  "globals painted_host (Suc (Suc (Suc (Suc 0)))) = Some (Suc (Suc (Suc 0)))"
  using first_paint_java(3) [of sample_item host0] first_paint_array(2) [of sample_item host0]
  by (simp_all add: painted_host_def painted_def updatePaintNode_unfold Let_def queue_frame_frame host0_def)

lemma painted_host_jheap:
  "jheap painted_host (Suc 0) = Some (SurfaceTexture 1 (Some (Suc (Suc 0))) identity_entry [flip_entry])"
  "jheap painted_host (Suc (Suc (Suc 0))) = Some (FloatArray (replicate 16 0))"
  using first_paint_java(1,3) [of sample_item host0] first_paint_array(1) [of sample_item host0]
  by (simp_all add: painted_host_def painted_item_eq painted_def updatePaintNode_unfold Let_def
      queue_frame_def resolve_def host0_def fresh_texture_def)



section \<open>The per-frame update\<close>

text \<open>
  Claim C1. When \<open>material()\<close> is non-null (and the node's array reference is the
  16-element float array its constructor made), \<open>preprocess\<close> makes exactly these calls, in
  this order: \<open>updateTexImage\<close> on the SurfaceTexture object, \<open>getTransformMatrix\<close> with
  the node's array, \<open>GetFloatArrayRegion\<close> of 16 floats from index 0 of that array, then
  \<open>glActiveTexture(GL_TEXTURE0)\<close> and \<open>glBindTexture\<close> of the node's texture id on the
  external target. The 16 floats that \<open>getTransformMatrix\<close> left in the array are what the
  material state's \<open>uSTMatrix\<close> holds afterwards, and unit 0 is active with the node's
  texture bound.
\<close>

theorem preprocess_sequence:
  assumes mat: "material n = Some mat"
    and arr: "float_array hs (m_uSTMatrixArray n) = Some xs"
    and len: "length xs = 16"
  shows "\<exists>ys.
      float_array
        (callMethod (m_surfaceTexture n) ''getTransformMatrix'' ''([F)V'' [JObject (m_uSTMatrixArray n)]
          (callMethod (m_surfaceTexture n) ''updateTexImage'' ''()V'' [] hs))
        (m_uSTMatrixArray n) = Some ys \<and>
      length ys = 16 \<and>
      fst (preprocess n hs) =
        n\<lparr>material := Some (mat\<lparr>state := (state mat)\<lparr>uSTMatrix := ys @ drop 16 (uSTMatrix (state mat))\<rparr>\<rparr>)\<rparr> \<and>
      calls (snd (preprocess n hs)) = calls hs @
        [CallVoidMethod (m_surfaceTexture n) ''updateTexImage'' ''()V'' [],
         CallVoidMethod (m_surfaceTexture n) ''getTransformMatrix'' ''([F)V'' [JObject (m_uSTMatrixArray n)],
         CallGetFloatArrayRegion (m_uSTMatrixArray n) 0 16,
         GlActiveTexture GL_TEXTURE0,
         GlBindTexture GL_TEXTURE_EXTERNAL_OES (m_textureId n)] \<and>
      float_array (snd (preprocess n hs)) (m_uSTMatrixArray n) = Some ys \<and>
      gl_active (snd (preprocess n hs)) = GL_TEXTURE0 \<and>
      gl_bound (snd (preprocess n hs)) (GL_TEXTURE0, GL_TEXTURE_EXTERNAL_OES) = m_textureId n"
proof -
  let ?hs1 = "callMethod (m_surfaceTexture n) ''updateTexImage'' ''()V'' [] hs"
  let ?hs2 = "callMethod (m_surfaceTexture n) ''getTransformMatrix'' ''([F)V'' [JObject (m_uSTMatrixArray n)] ?hs1"
  from callMethod_float_array [OF arr] obtain zs
    where zs: "float_array ?hs1 (m_uSTMatrixArray n) = Some zs" "length zs = length xs"
    by blast
  from callMethod_float_array [OF zs(1)] obtain ys
    where ys: "float_array ?hs2 (m_uSTMatrixArray n) = Some ys" "length ys = length zs"
    by blast
  from ys zs len have l16: "length ys = 16" by simp
  then have le: "0 + 16 \<le> length ys" by simp
  have region: "GetFloatArrayRegion (m_uSTMatrixArray n) 0 16 buf ?hs2 =
      (ys @ drop 16 buf, record_call (CallGetFloatArrayRegion (m_uSTMatrixArray n) 0 16) ?hs2)" for buf
    using GetFloatArrayRegion_ok [OF ys(1) le, of buf] l16 by simp
  let ?hs3 = "record_call (CallGetFloatArrayRegion (m_uSTMatrixArray n) 0 16) ?hs2"
  let ?hs5 = "glBindTexture GL_TEXTURE_EXTERNAL_OES (m_textureId n) (glActiveTexture GL_TEXTURE0 ?hs3)"
  have p: "preprocess n hs =
      (n\<lparr>material := Some (mat\<lparr>state := (state mat)\<lparr>uSTMatrix := ys @ drop 16 (uSTMatrix (state mat))\<rparr>\<rparr>)\<rparr>, ?hs5)"
    using mat by (simp add: preprocess_def Let_def region)
  have c: "calls ?hs5 = calls hs @
        [CallVoidMethod (m_surfaceTexture n) ''updateTexImage'' ''()V'' [],
         CallVoidMethod (m_surfaceTexture n) ''getTransformMatrix'' ''([F)V'' [JObject (m_uSTMatrixArray n)],
         CallGetFloatArrayRegion (m_uSTMatrixArray n) 0 16,
         GlActiveTexture GL_TEXTURE0,
         GlBindTexture GL_TEXTURE_EXTERNAL_OES (m_textureId n)]"
    by (simp add: glBindTexture_def glActiveTexture_def calls_record_call callMethod_calls)
  have f: "float_array ?hs5 (m_uSTMatrixArray n) = float_array ?hs2 (m_uSTMatrixArray n)"
    by (simp add: glBindTexture_def glActiveTexture_def float_array_def resolve_def record_call_def
        cong: option.case_cong jref.case_cong)
  have g: "gl_active ?hs5 = GL_TEXTURE0"
    "gl_bound ?hs5 (GL_TEXTURE0, GL_TEXTURE_EXTERNAL_OES) = m_textureId n"
    by (simp_all add: glBindTexture_def glActiveTexture_def record_call_def)
  from ys(1) l16 p c f g show ?thesis by simp
qed

theorem preprocess_sequence_witness:
  "material painted_node = Some createMaterial \<and>
   float_array painted_host (m_uSTMatrixArray painted_node) = Some (replicate 16 0) \<and>
   material (fst (preprocess painted_node painted_host)) =
     Some (createMaterial\<lparr>state := \<lparr>uSTMatrix = map flip_entry [0..<16]\<rparr>\<rparr>) \<and>
   calls (snd (preprocess painted_node painted_host)) = calls painted_host @
     [CallVoidMethod (m_surfaceTexture painted_node) ''updateTexImage'' ''()V'' [],
      CallVoidMethod (m_surfaceTexture painted_node) ''getTransformMatrix'' ''([F)V''
        [JObject (m_uSTMatrixArray painted_node)],
      CallGetFloatArrayRegion (m_uSTMatrixArray painted_node) 0 16,
      GlActiveTexture GL_TEXTURE0,
      GlBindTexture GL_TEXTURE_EXTERNAL_OES (m_textureId painted_node)] \<and>
   m_surfaceTexture painted_node = Global 1 \<and>
   m_uSTMatrixArray painted_node = Global 4 \<and>
   m_textureId painted_node = 1"
proof -
  let ?st = "Global (Suc 0)" and ?arr = "Global (Suc (Suc (Suc (Suc 0))))"
  have f: "m_surfaceTexture painted_node = ?st" "m_uSTMatrixArray painted_node = ?arr"
    by (simp_all add: painted_node_eq)
  have f': "m_surfaceTexture painted_node = Global 1" "m_uSTMatrixArray painted_node = Global 4"
    "m_textureId painted_node = 1"
    by (simp_all add: painted_node_eq eval_nat_numeral)
  have h1: "material painted_node = Some createMaterial"
    by (simp add: painted_node_eq)
  have h2: "float_array painted_host (m_uSTMatrixArray painted_node) = Some (replicate 16 0)"
    unfolding f by (simp add: float_array_def resolve_def painted_host_globals painted_host_jheap)
  have h3: "length (replicate 16 (0 :: cfloat)) = 16"
    by simp
  let ?hs1 = "callMethod ?st ''updateTexImage'' ''()V'' [] painted_host"
  have u: "globals ?hs1 = globals painted_host"
    "jheap ?hs1 (Suc 0) = Some (SurfaceTexture 1 (Some (Suc (Suc 0))) flip_entry [])"
    "jheap ?hs1 (Suc (Suc (Suc 0))) = Some (FloatArray (replicate 16 0))"
    by (simp_all add: callMethod_def Let_def resolve_def painted_host_globals painted_host_jheap
        record_call_def)
  have filled: "float_array
        (callMethod ?st ''getTransformMatrix'' ''([F)V'' [JObject ?arr] ?hs1) ?arr
      = Some (map flip_entry [0..<16])"
    by (simp add: callMethod_def [of _ "''getTransformMatrix''"] Let_def resolve_def u
        painted_host_globals float_array_def store_array_def record_call_def)
  have m: "drop 16 (uSTMatrix (state createMaterial)) = []"
    by (simp add: createMaterial_def identity_matrix_def)
  from preprocess_sequence [OF h1 h2 h3] obtain ys where
    ys: "float_array
        (callMethod (m_surfaceTexture painted_node) ''getTransformMatrix'' ''([F)V''
          [JObject (m_uSTMatrixArray painted_node)]
          (callMethod (m_surfaceTexture painted_node) ''updateTexImage'' ''()V'' [] painted_host))
        (m_uSTMatrixArray painted_node) = Some ys"
      "fst (preprocess painted_node painted_host) =
        painted_node\<lparr>material := Some (createMaterial\<lparr>state := (state createMaterial)
          \<lparr>uSTMatrix := ys @ drop 16 (uSTMatrix (state createMaterial))\<rparr>\<rparr>)\<rparr>"
      "calls (snd (preprocess painted_node painted_host)) = calls painted_host @
        [CallVoidMethod (m_surfaceTexture painted_node) ''updateTexImage'' ''()V'' [],
         CallVoidMethod (m_surfaceTexture painted_node) ''getTransformMatrix'' ''([F)V''
           [JObject (m_uSTMatrixArray painted_node)],
         CallGetFloatArrayRegion (m_uSTMatrixArray painted_node) 0 16,
         GlActiveTexture GL_TEXTURE0,
         GlBindTexture GL_TEXTURE_EXTERNAL_OES (m_textureId painted_node)]"
    by blast
  from ys(1) filled have "ys = map flip_entry [0..<16]"
    unfolding f by simp
  with ys(2) m have r: "material (fst (preprocess painted_node painted_host)) =
     Some (createMaterial\<lparr>state := \<lparr>uSTMatrix = map flip_entry [0..<16]\<rparr>\<rparr>)"
    by (simp add: createMaterial_def)
  from h1 h2 r ys(3) f' show ?thesis
    by blast
qed

text \<open>
  Claim C6. If \<open>material()\<close> returns null, \<open>preprocess\<close> returns at once: the node and the
  host, with its log of calls, are exactly as before.
\<close>

theorem preprocess_no_material:
  "material n = None \<Longrightarrow> preprocess n hs = (n, hs)"
  by (simp add: preprocess_def)

theorem preprocess_no_material_witness:
  "material (painted_node\<lparr>material := None\<rparr>) = None \<and>
   preprocess (painted_node\<lparr>material := None\<rparr>) painted_host =
     (painted_node\<lparr>material := None\<rparr>, painted_host)"
proof -
  have h: "material (painted_node\<lparr>material := None\<rparr>) = None"
    by simp
  from preprocess_no_material [OF h, of painted_host] h show ?thesis
    by blast
qed

text \<open>
  Claim C2. The constructor of \<open>SurfaceTextureNode\<close> allocates one float array of 16
  elements (one \<open>NewFloatArray\<close> call, one new object on the Java heap), promotes it to a
  global reference that it stores in \<open>m_uSTMatrixArray\<close>, and drops the local reference.
  \<open>preprocess\<close> never changes \<open>m_uSTMatrixArray\<close>, allocates nothing and passes that same
  reference to the two calls that take an array. The destructor calls \<open>DeleteGlobalRef\<close>
  on it, after which the reference of a constructed node resolves to nothing.
\<close>

theorem one_array_per_node:
  "m_uSTMatrixArray (fst (SurfaceTextureNode_ctor st tex hs)) = Global (Suc (Suc (fresh hs))) \<and>
   calls (snd (SurfaceTextureNode_ctor st tex hs)) = calls hs @
     [CallNewFloatArray 16, CallNewGlobalRef (Local (Suc (fresh hs))),
      CallDeleteLocalRef (Local (Suc (fresh hs)))] \<and>
   allocations (calls (snd (SurfaceTextureNode_ctor st tex hs))) = Suc (allocations (calls hs)) \<and>
   jheap (snd (SurfaceTextureNode_ctor st tex hs)) =
     (jheap hs)(Suc (fresh hs) \<mapsto> FloatArray (replicate 16 0)) \<and>
   globals (snd (SurfaceTextureNode_ctor st tex hs)) =
     (globals hs)(Suc (Suc (fresh hs)) \<mapsto> Suc (fresh hs)) \<and>
   float_array (snd (SurfaceTextureNode_ctor st tex hs))
     (m_uSTMatrixArray (fst (SurfaceTextureNode_ctor st tex hs))) = Some (replicate 16 0) \<and>
   m_uSTMatrixArray (fst (preprocess n hs)) = m_uSTMatrixArray n \<and>
   allocations (calls (snd (preprocess n hs))) = allocations (calls hs) \<and>
   dom (jheap (snd (preprocess n hs))) = dom (jheap hs) \<and>
   globals (snd (preprocess n hs)) = globals hs \<and>
   (case material n of
      None \<Rightarrow> calls (snd (preprocess n hs)) = calls hs
    | Some mat \<Rightarrow> calls (snd (preprocess n hs)) = calls hs @
        [CallVoidMethod (m_surfaceTexture n) ''updateTexImage'' ''()V'' [],
         CallVoidMethod (m_surfaceTexture n) ''getTransformMatrix'' ''([F)V'' [JObject (m_uSTMatrixArray n)],
         CallGetFloatArrayRegion (m_uSTMatrixArray n) 0 16,
         GlActiveTexture GL_TEXTURE0,
         GlBindTexture GL_TEXTURE_EXTERNAL_OES (m_textureId n)]) \<and>
   calls (SurfaceTextureNode_dtor n hs) = calls hs @ [CallDeleteGlobalRef (m_uSTMatrixArray n)] \<and>
   resolve (SurfaceTextureNode_dtor (fst (SurfaceTextureNode_ctor st tex hs)) hs')
     (m_uSTMatrixArray (fst (SurfaceTextureNode_ctor st tex hs))) = None"
proof -
  have alloc: "allocations (calls (snd (preprocess n hs))) = allocations (calls hs)"
    by (simp add: preprocess_calls allocations_def split: option.splits)
  have pc: "(case material n of
      None \<Rightarrow> calls (snd (preprocess n hs)) = calls hs
    | Some mat \<Rightarrow> calls (snd (preprocess n hs)) = calls hs @
        [CallVoidMethod (m_surfaceTexture n) ''updateTexImage'' ''()V'' [],
         CallVoidMethod (m_surfaceTexture n) ''getTransformMatrix'' ''([F)V'' [JObject (m_uSTMatrixArray n)],
         CallGetFloatArrayRegion (m_uSTMatrixArray n) 0 16,
         GlActiveTexture GL_TEXTURE0,
         GlBindTexture GL_TEXTURE_EXTERNAL_OES (m_textureId n)])"
    by (simp add: preprocess_calls split: option.splits)
  have d1: "calls (SurfaceTextureNode_dtor n hs) = calls hs @ [CallDeleteGlobalRef (m_uSTMatrixArray n)]"
    by (simp add: SurfaceTextureNode_dtor_def DeleteGlobalRef_def record_call_def split: jref.splits)
  have d2: "resolve (SurfaceTextureNode_dtor (fst (SurfaceTextureNode_ctor st tex hs)) hs')
     (m_uSTMatrixArray (fst (SurfaceTextureNode_ctor st tex hs))) = None"
    by (simp add: ctor_eq SurfaceTextureNode_dtor_def DeleteGlobalRef_def record_call_def resolve_def)
  have c1: "float_array (snd (SurfaceTextureNode_ctor st tex hs))
     (m_uSTMatrixArray (fst (SurfaceTextureNode_ctor st tex hs))) = Some (replicate 16 0)"
    by (simp add: ctor_eq float_array_def resolve_def)
  have c2: "allocations (calls (snd (SurfaceTextureNode_ctor st tex hs))) = Suc (allocations (calls hs))"
    by (simp add: ctor_eq allocations_def)
  from alloc pc d1 d2 c1 c2 show ?thesis
    by (simp add: ctor_eq preprocess_refs)
qed

section \<open>The callback from Java\<close>

text \<open>
  Claim C5. The JNI callback does one thing: it calls
  \<open>QMetaObject::invokeMethod(ptr, "update", Qt::QueuedConnection)\<close>. Nothing else in the
  host changes.
\<close>

theorem frameAvailable_effect:
  "Java_com_kdab_android_SurfaceTextureListener_frameAvailable thiz ptr surfaceTexture hs =
     hs\<lparr>calls := calls hs @ [InvokeMethod ptr ''update'' QueuedConnection]\<rparr>"
  by (simp add: Java_com_kdab_android_SurfaceTextureListener_frameAvailable_def
      invokeMethod_def record_call_def)

section \<open>Painting\<close>

text \<open>
  Claim C3. With a non-null node, \<open>updatePaintNode\<close> leaves the item (so its texture id and
  its SurfaceTexture object) as it is, creates nothing, and only writes the node's geometry
  and marks it dirty. With a null node it generates the texture, stores its name and the
  new Java \<open>SurfaceTexture\<close> in the item, installs a new \<open>SurfaceTextureListener\<close> made
  from the item's address, and builds the node.
\<close>

theorem created_on_first_paint_only:
  "updatePaintNode narrow it (Some nd) hs =
     (nd\<lparr>m_geometry := Some (setBottom (narrow (rect_top (boundingRect it)))
                               (setTop (rect_bottom (boundingRect it)) (boundingRect it)),
                             unit_square)\<rparr>,
      it,
      hs\<lparr>calls := calls hs @
        [UpdateTexturedRectGeometry
           (setBottom (narrow (rect_top (boundingRect it)))
              (setTop (rect_bottom (boundingRect it)) (boundingRect it)))
           unit_square,
         MarkDirty {DirtyGeometry, DirtyMaterial}]\<rparr>) \<and>
   fst (snd (updatePaintNode narrow it None hs)) =
     it\<lparr>item_textureId := fresh_texture hs, item_surfaceTexture := Global (Suc (fresh hs))\<rparr> \<and>
   fresh_texture hs \<noteq> 0 \<and>
   gl_textures (snd (snd (updatePaintNode narrow it None hs))) =
     insert (fresh_texture hs) (gl_textures hs) \<and>
   globals (snd (snd (updatePaintNode narrow it None hs))) (Suc (fresh hs)) = Some (Suc (fresh hs)) \<and>
   jheap (snd (snd (updatePaintNode narrow it None hs))) (Suc (fresh hs)) =
     Some (SurfaceTexture (fresh_texture hs) (Some (Suc (Suc (fresh hs)))) identity_entry []) \<and>
   jheap (snd (snd (updatePaintNode narrow it None hs))) (Suc (Suc (fresh hs))) =
     Some (Instance ''com/kdab/android/SurfaceTextureListener'' [JLong (this it)]) \<and>
   calls (snd (snd (updatePaintNode narrow it None hs))) = calls hs @
     [GlGenTextures 1,
      GlBindTexture GL_TEXTURE_EXTERNAL_OES (fresh_texture hs),
      GlTexParameterf GL_TEXTURE_EXTERNAL_OES GL_TEXTURE_MIN_FILTER GL_NEAREST,
      GlTexParameterf GL_TEXTURE_EXTERNAL_OES GL_TEXTURE_MAG_FILTER GL_LINEAR,
      GlTexParameteri GL_TEXTURE_EXTERNAL_OES GL_TEXTURE_WRAP_S GL_CLAMP_TO_EDGE,
      GlTexParameteri GL_TEXTURE_EXTERNAL_OES GL_TEXTURE_WRAP_T GL_CLAMP_TO_EDGE,
      CallNewObject ''android/graphics/SurfaceTexture'' ''(I)V'' [JInt (fresh_texture hs)],
      CallNewObject ''com/kdab/android/SurfaceTextureListener'' ''(J)V'' [JLong (this it)],
      CallVoidMethod (Global (Suc (fresh hs))) ''setOnFrameAvailableListener''
        ''(Landroid/graphics/SurfaceTexture$OnFrameAvailableListener;)V''
        [JObject (Global (Suc (Suc (fresh hs))))],
      CallNewFloatArray 16,
      CallNewGlobalRef (Local (Suc (Suc (Suc (fresh hs))))),
      CallDeleteLocalRef (Local (Suc (Suc (Suc (fresh hs))))),
      UpdateTexturedRectGeometry
        (setBottom (narrow (rect_top (boundingRect it)))
           (setTop (rect_bottom (boundingRect it)) (boundingRect it)))
        unit_square,
      MarkDirty {DirtyGeometry, DirtyMaterial}]"
  by (simp add: updatePaintNode_unfold Let_def first_paint_item first_paint_calls first_paint_gl
      first_paint_java fresh_texture_nonzero boundingRect_def)

text \<open>
  Claim C4. On the first paint the new texture gets exactly four parameters: minification
  filter \<open>GL_NEAREST\<close>, magnification filter \<open>GL_LINEAR\<close>, and \<open>GL_CLAMP_TO_EDGE\<close> for the
  S and the T wrap mode; no other parameter call is made.
\<close>

theorem first_paint_parameters:
  "gl_params (snd (snd (updatePaintNode narrow it None hs)))
       (item_textureId (fst (snd (updatePaintNode narrow it None hs)))) =
     [GL_TEXTURE_MIN_FILTER \<mapsto> GL_NEAREST, GL_TEXTURE_MAG_FILTER \<mapsto> GL_LINEAR,
      GL_TEXTURE_WRAP_S \<mapsto> GL_CLAMP_TO_EDGE, GL_TEXTURE_WRAP_T \<mapsto> GL_CLAMP_TO_EDGE] \<and>
   tex_parameter_calls (calls (snd (snd (updatePaintNode narrow it None hs)))) =
     tex_parameter_calls (calls hs) @
     [GlTexParameterf GL_TEXTURE_EXTERNAL_OES GL_TEXTURE_MIN_FILTER GL_NEAREST,
      GlTexParameterf GL_TEXTURE_EXTERNAL_OES GL_TEXTURE_MAG_FILTER GL_LINEAR,
      GlTexParameteri GL_TEXTURE_EXTERNAL_OES GL_TEXTURE_WRAP_S GL_CLAMP_TO_EDGE,
      GlTexParameteri GL_TEXTURE_EXTERNAL_OES GL_TEXTURE_WRAP_T GL_CLAMP_TO_EDGE]"
  by (simp add: updatePaintNode_unfold Let_def first_paint_item first_paint_calls first_paint_gl
      tex_parameter_calls_def)

lemma qadd_zero: "qadd (Finite 0) a = a" "qadd a (Finite 0) = a"
  by (cases a; simp)+

lemma qsub_zero: "qsub a (Finite 0) = a" "qsub (Finite 0) a = qneg a"
  by (simp_all add: qsub_def qadd_zero)

lemma qadd_qneg: "qadd a (qneg a) = Finite 0 \<longleftrightarrow> is_finite a"
  by (cases a) simp_all

lemma flipped_rect:
  assumes "narrow (Finite 0) = Finite 0"
  shows "setBottom (narrow (rect_top (boundingRect it)))
           (setTop (rect_bottom (boundingRect it)) (boundingRect it)) =
         \<lparr>xp = Finite 0, yp = height it, wd = width it, ht = qneg (height it)\<rparr>"
  using assms
  by (simp add: setBottom_def setTop_def rect_top_def rect_bottom_def boundingRect_def Let_def
      qadd_zero qsub_zero)

text \<open>
  Claim C9, as amended. On every call of \<open>updatePaintNode\<close>, with or without a node, the
  rectangle given to \<open>updateTexturedRectGeometry\<close> has the left and right of the item's
  bounding rectangle and its bottom as top, and the texture rectangle is
  \<open>QRectF(0, 0, 1, 1)\<close>. Its bottom is the bounding rectangle's top exactly when the
  item's height is finite. The top passes through a \<open>float\<close> variable on its way; the top
  of a bounding rectangle is 0, which the conversion keeps.
\<close>

theorem flipped_geometry:
  assumes "narrow (Finite 0) = Finite 0"
  shows "\<exists>r. m_geometry (fst (updatePaintNode narrow it n hs)) = Some (r, unit_square) \<and>
     filter is_UpdateGeometry (calls (snd (snd (updatePaintNode narrow it n hs)))) =
       filter is_UpdateGeometry (calls hs) @ [UpdateTexturedRectGeometry r unit_square] \<and>
     unit_square = \<lparr>xp = Finite 0, yp = Finite 0, wd = Finite 1, ht = Finite 1\<rparr> \<and>
     rect_left r = rect_left (boundingRect it) \<and>
     rect_right r = rect_right (boundingRect it) \<and>
     rect_top r = rect_bottom (boundingRect it) \<and>
     (rect_bottom r = rect_top (boundingRect it) \<longleftrightarrow> is_finite (height it))"
proof -
  let ?r = "setBottom (narrow (rect_top (boundingRect it)))
              (setTop (rect_bottom (boundingRect it)) (boundingRect it))"
  have r: "?r = \<lparr>xp = Finite 0, yp = height it, wd = width it, ht = qneg (height it)\<rparr>"
    using assms by (rule flipped_rect [of narrow it])
  have geo: "m_geometry (fst (updatePaintNode narrow it n hs)) = Some (?r, unit_square)"
    by (cases n) (simp_all add: updatePaintNode_unfold Let_def boundingRect_first_paint)
  have log: "filter is_UpdateGeometry (calls (snd (snd (updatePaintNode narrow it n hs)))) =
       filter is_UpdateGeometry (calls hs) @ [UpdateTexturedRectGeometry ?r unit_square]"
    by (cases n) (simp_all add: updatePaintNode_unfold Let_def boundingRect_first_paint first_paint_calls)
  have sides: "rect_left ?r = rect_left (boundingRect it)" "rect_right ?r = rect_right (boundingRect it)"
    "rect_top ?r = rect_bottom (boundingRect it)"
    unfolding r
    by (simp_all add: rect_left_def rect_right_def rect_top_def rect_bottom_def boundingRect_def qadd_zero)
  have bottom: "rect_bottom ?r = rect_top (boundingRect it) \<longleftrightarrow> is_finite (height it)"
    unfolding r by (simp add: rect_top_def rect_bottom_def boundingRect_def qadd_qneg)
  from geo log sides bottom show ?thesis
    by (simp add: unit_square_def)
qed

theorem flipped_geometry_witness:
  "sample_narrow (Finite 0) = Finite 0 \<and>
   m_geometry (fst (updatePaintNode sample_narrow sample_item None host0)) =
     Some (\<lparr>xp = Finite 0, yp = Finite 480, wd = Finite 640, ht = Finite (- 480)\<rparr>,
           \<lparr>xp = Finite 0, yp = Finite 0, wd = Finite 1, ht = Finite 1\<rparr>) \<and>
   is_finite (height sample_item) \<and>
   rect_top \<lparr>xp = Finite 0, yp = Finite 480, wd = Finite 640, ht = Finite (- 480)\<rparr> =
     rect_bottom (boundingRect sample_item) \<and>
   rect_bottom \<lparr>xp = Finite 0, yp = Finite 480, wd = Finite 640, ht = Finite (- 480)\<rparr> =
     rect_top (boundingRect sample_item)"
proof -
  have h: "sample_narrow (Finite 0) = Finite 0"
    by simp
  have f: "is_finite (height sample_item)"
    by (simp add: sample_item_def)
  have b: "boundingRect sample_item = \<lparr>xp = Finite 0, yp = Finite 0, wd = Finite 640, ht = Finite 480\<rparr>"
    by (simp add: boundingRect_def sample_item_def QSurfaceTexture_ctor_def)
  from flipped_geometry [of sample_narrow sample_item None host0] h f obtain r where
    r: "m_geometry (fst (updatePaintNode sample_narrow sample_item None host0)) = Some (r, unit_square)"
      "rect_left r = rect_left (boundingRect sample_item)"
      "rect_top r = rect_bottom (boundingRect sample_item)"
      "rect_bottom r = rect_top (boundingRect sample_item)"
    by blast
  have g: "m_geometry (fst (updatePaintNode sample_narrow sample_item None host0)) =
      Some (\<lparr>xp = Finite 0, yp = Finite 480, wd = Finite 640, ht = Finite (- 480)\<rparr>, unit_square)"
    using painted_node_eq by (simp add: painted_node_def painted_def)
  from r(1) g have e: "r = \<lparr>xp = Finite 0, yp = Finite 480, wd = Finite 640, ht = Finite (- 480)\<rparr>"
    by simp
  from r(3,4) g h f show ?thesis
    unfolding e unit_square_def by blast
qed

text \<open>
  Claim C9 as stated fails on an item whose height is infinite: the rectangle passed on
  is \<open>(0, inf, 640, -inf)\<close>, whose bottom \<open>inf + (-inf)\<close> is NaN and not the 0 that is the
  top of the bounding rectangle.
\<close>

theorem flipped_geometry_counterexample:
  "m_geometry (fst (updatePaintNode sample_narrow (sample_item\<lparr>height := PosInf\<rparr>) None host0)) =
     Some (\<lparr>xp = Finite 0, yp = PosInf, wd = Finite 640, ht = NegInf\<rparr>, unit_square) \<and>
   rect_bottom \<lparr>xp = Finite 0, yp = PosInf, wd = Finite 640, ht = NegInf\<rparr> = NaN \<and>
   rect_top (boundingRect (sample_item\<lparr>height := PosInf\<rparr>)) = Finite 0 \<and>
   rect_bottom \<lparr>xp = Finite 0, yp = PosInf, wd = Finite 640, ht = NegInf\<rparr> \<noteq>
     rect_top (boundingRect (sample_item\<lparr>height := PosInf\<rparr>))"
proof -
  have n: "sample_narrow (Finite 0) = Finite 0"
    by simp
  have "m_geometry (fst (updatePaintNode sample_narrow (sample_item\<lparr>height := PosInf\<rparr>) None host0)) =
     Some (\<lparr>xp = Finite 0, yp = PosInf, wd = Finite 640, ht = NegInf\<rparr>, unit_square)"
    using flipped_rect [of sample_narrow "sample_item\<lparr>height := PosInf\<rparr>"] n
    by (simp add: updatePaintNode_unfold Let_def boundingRect_first_paint
        sample_item_def QSurfaceTexture_ctor_def)
  then show ?thesis
    by (simp add: rect_bottom_def rect_top_def boundingRect_def)
qed

section \<open>Destruction\<close>

text \<open>
  What the two destructors release. The destructor of an item whose texture id is not 0
  binds texture 0 to the external target and deletes that texture: afterwards the name
  is no longer a texture and is bound nowhere. The destructor of a node deletes the
  global reference to its float array: afterwards the reference is no longer live.
\<close>

theorem resources_released:
  "(item_textureId it \<noteq> 0 \<longrightarrow>
      calls (QSurfaceTexture_dtor it hs) = calls hs @
        [GlBindTexture GL_TEXTURE_EXTERNAL_OES 0, GlDeleteTextures [item_textureId it]] \<and>
      item_textureId it \<notin> gl_textures (QSurfaceTexture_dtor it hs) \<and>
      (\<forall>k. gl_bound (QSurfaceTexture_dtor it hs) k \<noteq> item_textureId it)) \<and>
   calls (SurfaceTextureNode_dtor n hs) = calls hs @ [CallDeleteGlobalRef (m_uSTMatrixArray n)] \<and>
   (\<forall>k. m_uSTMatrixArray n = Global k \<longrightarrow> globals (SurfaceTextureNode_dtor n hs) k = None)"
  by (auto simp: QSurfaceTexture_dtor_def glDeleteTextures_def glBindTexture_def record_call_def
      SurfaceTextureNode_dtor_def DeleteGlobalRef_def split: jref.splits)

theorem resources_released_witness:
  "item_textureId painted_item = 1 \<and>
   calls (QSurfaceTexture_dtor painted_item painted_host) = calls painted_host @
     [GlBindTexture GL_TEXTURE_EXTERNAL_OES 0, GlDeleteTextures [1]] \<and>
   1 \<notin> gl_textures (QSurfaceTexture_dtor painted_item painted_host) \<and>
   m_uSTMatrixArray painted_node = Global 4 \<and>
   globals painted_host 4 = Some 3 \<and>
   globals (SurfaceTextureNode_dtor painted_node painted_host) 4 = None"
proof -
  have i: "item_textureId painted_item = 1"
    by (simp add: painted_item_eq)
  have n: "m_uSTMatrixArray painted_node = Global 4"
    by (simp add: painted_node_eq eval_nat_numeral)
  have g: "globals painted_host 4 = Some 3"
    using painted_host_globals(2) by (simp add: eval_nat_numeral)
  note R = resources_released [of painted_item painted_host painted_node]
  have nz: "item_textureId painted_item \<noteq> 0"
    unfolding i by simp
  from R nz have A: "calls (QSurfaceTexture_dtor painted_item painted_host) = calls painted_host @
        [GlBindTexture GL_TEXTURE_EXTERNAL_OES 0, GlDeleteTextures [item_textureId painted_item]]"
      "item_textureId painted_item \<notin> gl_textures (QSurfaceTexture_dtor painted_item painted_host)"
    by blast+
  from R n have C: "globals (SurfaceTextureNode_dtor painted_node painted_host) 4 = None"
    by blast
  from A [unfolded i] C i n g show ?thesis
    by blast
qed

text \<open>
  Claim C7. The claim holds for the texture the item holds when it is destroyed, as shown
  above, but the code does not keep it for every texture the item made.
  \<open>updatePaintNode\<close> generates a texture on each call with a null node and overwrites
  \<open>m_textureId\<close> without deleting the texture it named. In the sample run the item is
  painted twice with a null node: it holds texture 1, then texture 2. Its destructor
  deletes texture 2, the only \<open>glDeleteTextures\<close> call of the whole run, and texture 1 is
  still a texture of the host after the item is gone.
\<close>

theorem texture_outlives_item:
  "item_textureId painted_item = 1 \<and>
   item_textureId (fst (snd repainted)) = 2 \<and>
   gl_textures (snd (snd repainted)) = {1, 2} \<and>
   gl_textures destroyed_host = {1} \<and>
   filter is_DeleteTextures (calls destroyed_host) = [GlDeleteTextures [2]]"
proof -
  let ?h = "SurfaceTextureNode_dtor painted_node painted_host"
  have h: "gl_last ?h = 1" "gl_textures ?h = {1}" "filter is_DeleteTextures (calls ?h) = []"
    by (simp_all add: node_dtor_gl painted_host_gl)
  have f: "fresh_texture ?h = 2"
    by (simp add: fresh_texture_def h)
  have r: "item_textureId (fst (snd repainted)) = 2"
    "gl_textures (snd (snd repainted)) = {1, 2}"
    "filter is_DeleteTextures (calls (snd (snd repainted))) = []"
    by (auto simp: repainted_def paint_gl f h)
  let ?g = "SurfaceTextureNode_dtor (fst repainted) (snd (snd repainted))"
  have g: "gl_textures ?g = {1, 2}" "filter is_DeleteTextures (calls ?g) = []"
    by (simp_all add: node_dtor_gl r)
  have d: "gl_textures destroyed_host = {1}"
    "filter is_DeleteTextures (calls destroyed_host) = [GlDeleteTextures [2]]"
    by (auto simp: destroyed_host_def QSurfaceTexture_dtor_def r glDeleteTextures_def
        glBindTexture_def record_call_def g)
  have i: "item_textureId painted_item = 1"
    by (simp add: painted_item_eq)
  from i r d show ?thesis by simp
qed

text \<open>
  Claim C10. The destructor of an item whose texture id is 0 does nothing at all; in
  particular it makes no GL call.
\<close>

theorem dtor_no_texture:
  "item_textureId it = 0 \<Longrightarrow> QSurfaceTexture_dtor it hs = hs"
  by (simp add: QSurfaceTexture_dtor_def)

theorem dtor_no_texture_witness:
  "item_textureId (QSurfaceTexture_ctor 4096) = 0 \<and>
   QSurfaceTexture_dtor (QSurfaceTexture_ctor 4096) host0 = host0 \<and>
   filter is_gl (calls (QSurfaceTexture_dtor (QSurfaceTexture_ctor 4096) host0)) = []"
proof -
  have h: "item_textureId (QSurfaceTexture_ctor 4096) = 0"
    by (simp add: QSurfaceTexture_ctor_def)
  from dtor_no_texture [OF h, of host0] h show ?thesis
    by (simp add: host0_def)
qed

section \<open>Comparison of material states\<close>

lemma float_eq_sym: "float_eq a b = float_eq b a"
  by (auto simp: float_eq_def)

lemma float_eq_refl: "float_eq a a = (\<not> is_nan a)"
  by (simp add: float_eq_def)

lemma is_zero_0: "is_zero 0"
  by (simp add: is_zero_def)

lemma float_eq_value:
  "float_eq a b \<longleftrightarrow> \<not> is_nan a \<and> \<not> is_nan b \<and> float_value a = float_value b"
proof (cases "is_zero a")
  case True
  then show ?thesis
    using is_zero_0 by (cases "is_zero b") (auto simp: float_eq_def float_value_def)
next
  case False
  then show ?thesis
    using is_zero_0 by (cases "is_zero b") (auto simp: float_eq_def float_value_def)
qed

lemma matrix_eq_sym: "matrix_eq a b = matrix_eq b a"
  unfolding matrix_eq_def
  by (metis float_eq_sym list_all2_conv_all_nth)

lemma matrix_eq_refl: "matrix_eq a a = (\<not> has_nan a)"
  unfolding matrix_eq_def has_nan_def
  by (simp add: list_all2_same float_eq_refl list_ex_iff)

lemma matrix_eq_value:
  "matrix_eq a b \<longleftrightarrow> \<not> has_nan a \<and> \<not> has_nan b \<and> map float_value a = map float_value b"
  unfolding matrix_eq_def has_nan_def
proof (induction a b rule: list_induct2')
  case (4 x xs y ys)
  then show ?case
    by (auto simp: float_eq_value)
qed simp_all

lemma value_eq_plain:
  "\<not> mixed_zeros a b \<Longrightarrow> map float_value a = map float_value b \<longleftrightarrow> a = b"
  unfolding mixed_zeros_def
proof (induction a b rule: list_induct2')
  case (4 x xs y ys)
  from 4 have nm: "\<not> (is_zero x \<and> is_zero y \<and> x \<noteq> y)"
    and rest: "map float_value xs = map float_value ys \<longleftrightarrow> xs = ys"
    by simp_all
  have "float_value x = float_value y \<longleftrightarrow> x = y"
  proof (cases "is_zero x")
    case True
    with nm is_zero_0 show ?thesis
      by (cases "is_zero y") (auto simp: float_value_def)
  next
    case False
    with is_zero_0 show ?thesis
      by (cases "is_zero y") (auto simp: float_value_def)
  qed
  with rest show ?case by simp
qed simp_all

lemma matrix_eq_tight:
  "\<not> has_nan a \<Longrightarrow> \<not> has_nan b \<Longrightarrow> \<not> mixed_zeros a b \<Longrightarrow> matrix_eq a b \<longleftrightarrow> a = b"
  by (simp add: matrix_eq_value value_eq_plain)

text \<open>
  Claim C8, as amended. \<open>State::compare\<close> returns 0 or -1. It returns 0 exactly when
  neither matrix has a NaN entry and the two matrices are equal entry by entry as
  numbers; for matrices without NaN that do not hold zeros of opposite sign in the same
  place, that is exactly when the matrices are equal. The zero/non-zero outcome is
  symmetric, and a state compares equal to itself exactly when its matrix has no NaN
  entry.
\<close>

theorem compare_outcome:
  "(compare s t = 0 \<or> compare s t = - 1) \<and>
   (compare s t = 0 \<longleftrightarrow>
      \<not> has_nan (uSTMatrix s) \<and> \<not> has_nan (uSTMatrix t) \<and>
      map float_value (uSTMatrix s) = map float_value (uSTMatrix t)) \<and>
   (\<not> has_nan (uSTMatrix s) \<and> \<not> has_nan (uSTMatrix t) \<and>
    \<not> mixed_zeros (uSTMatrix s) (uSTMatrix t) \<longrightarrow>
      (compare s t = 0 \<longleftrightarrow> uSTMatrix s = uSTMatrix t)) \<and>
   (compare s t = 0 \<longleftrightarrow> compare t s = 0) \<and>
   (compare s s = 0 \<longleftrightarrow> \<not> has_nan (uSTMatrix s))"
proof -
  have a: "compare s t = 0 \<or> compare s t = - 1"
    by (simp add: compare_def)
  have b: "compare s t = 0 \<longleftrightarrow>
      \<not> has_nan (uSTMatrix s) \<and> \<not> has_nan (uSTMatrix t) \<and>
      map float_value (uSTMatrix s) = map float_value (uSTMatrix t)"
    using matrix_eq_value [of "uSTMatrix s" "uSTMatrix t"] by (simp add: compare_def)
  have c: "\<not> has_nan (uSTMatrix s) \<and> \<not> has_nan (uSTMatrix t) \<and>
    \<not> mixed_zeros (uSTMatrix s) (uSTMatrix t) \<longrightarrow>
      (compare s t = 0 \<longleftrightarrow> uSTMatrix s = uSTMatrix t)"
    using matrix_eq_tight [of "uSTMatrix s" "uSTMatrix t"] by (simp add: compare_def)
  have d: "compare s t = 0 \<longleftrightarrow> compare t s = 0"
    using matrix_eq_sym [of "uSTMatrix s" "uSTMatrix t"] by (simp add: compare_def)
  have e: "compare s s = 0 \<longleftrightarrow> \<not> has_nan (uSTMatrix s)"
    by (simp add: compare_def matrix_eq_refl)
  from a b c d e show ?thesis by blast
qed

text \<open>
  Claim C8 as stated fails: a state whose matrix holds NaN entries does not compare
  equal to an identical copy of itself.
\<close>

theorem compare_nan_counterexample:
  "compare \<lparr>uSTMatrix = replicate 16 0x7FC00000\<rparr> \<lparr>uSTMatrix = replicate 16 0x7FC00000\<rparr> = - 1"
  by (simp add: compare_def matrix_eq_def float_eq_def is_nan_def list_all2_same)

text \<open>
  The amended claim on 4x4 matrices: the identity (the default state) against itself and
  against the flipping transform of the sample run.
\<close>

theorem compare_outcome_witness:
  "length identity_matrix = 16 \<and> length flip_matrix = 16 \<and>
   \<not> has_nan identity_matrix \<and> \<not> has_nan flip_matrix \<and>
   \<not> mixed_zeros identity_matrix identity_matrix \<and>
   \<not> mixed_zeros identity_matrix flip_matrix \<and>
   compare \<lparr>uSTMatrix = identity_matrix\<rparr> \<lparr>uSTMatrix = identity_matrix\<rparr> = 0 \<and>
   compare \<lparr>uSTMatrix = identity_matrix\<rparr> \<lparr>uSTMatrix = flip_matrix\<rparr> = - 1"
proof -
  have i: "identity_matrix =
      [float_one, 0, 0, 0, 0, float_one, 0, 0, 0, 0, float_one, 0, 0, 0, 0, float_one]"
    by (simp add: identity_matrix_def identity_entry_def upt_rec)
  have f: "flip_matrix =
      [float_one, 0, 0, 0, 0, 0xBF800000, 0, 0, 0, 0, float_one, 0, 0, float_one, 0, float_one]"
    by (simp add: flip_matrix_def flip_entry_def upt_rec)
  have n: "\<not> is_nan float_one" "\<not> is_nan 0" "\<not> is_nan 0xBF800000"
    by (simp_all add: is_nan_def float_one_def)
  have z: "\<not> is_zero float_one"
    by (simp add: is_zero_def float_one_def)
  have h1: "\<not> has_nan identity_matrix"
    unfolding i by (simp add: has_nan_def n)
  have h2: "\<not> has_nan flip_matrix"
    unfolding f by (simp add: has_nan_def n)
  have h3: "\<not> mixed_zeros identity_matrix identity_matrix"
    unfolding i by (simp add: mixed_zeros_def)
  have h4: "\<not> mixed_zeros identity_matrix flip_matrix"
    unfolding i f by (simp add: mixed_zeros_def z)
  have ne: "identity_matrix \<noteq> flip_matrix"
    unfolding i f by (simp add: float_one_def)
  have l: "length identity_matrix = 16" "length flip_matrix = 16"
    by (simp_all add: identity_matrix_def flip_matrix_def)
  note A = compare_outcome [of "\<lparr>uSTMatrix = identity_matrix\<rparr>" "\<lparr>uSTMatrix = identity_matrix\<rparr>",
      unfolded State.select_convs]
  note B = compare_outcome [of "\<lparr>uSTMatrix = identity_matrix\<rparr>" "\<lparr>uSTMatrix = flip_matrix\<rparr>",
      unfolded State.select_convs]
  have c1: "compare \<lparr>uSTMatrix = identity_matrix\<rparr> \<lparr>uSTMatrix = identity_matrix\<rparr> = 0"
    using A h1 h3 by blast
  have c2: "compare \<lparr>uSTMatrix = identity_matrix\<rparr> \<lparr>uSTMatrix = flip_matrix\<rparr> = - 1"
    using B h1 h2 h4 ne by blast
  from l h1 h2 h3 h4 c1 c2 show ?thesis by blast
qed

end
